theory Spec2Isabelle
  imports Main "HOL-Library.AList"
begin

section \<open>Python values and errors\<close>

text \<open>
  Every exception the modelled code raises is a value of \<open>error\<close>; a function that can
  raise returns \<open>error + 'a\<close> with \<open>Inl\<close> for the exception. The string is the message.
\<close>

datatype error =
    IndexError
  | ValueError string
  | TypeError string
  | RuntimeError string
  | Exception string
  | AttributeError string

text \<open>
  The structure classes (\<open>swimai.structure.structs\<close>, \<open>swimai.structures\<close>) are not
  among the source files. Modelled from the spec: a Value is one of Absent, Extant, Text,
  Num, Bool or Record, and a Record is an ordered sequence of items, each an attribute,
  a slot or a bare value. \<open>Num\<close> keeps the integral numbers only.
\<close>

datatype Value =
    Absent
  | Extant
  | Text string
  | Num int
  | Bool bool
  | Record "item list"
and item =
    Attr string Value
  | Slot Value Value
  | Item Value

text \<open>
  The Python objects that flow through the modelled code: \<open>None\<close>, a native \<open>str\<close>,
  tuples and lists, an instance of a structure class, and an instance of a user class
  (its class name and its attributes).
\<close>

datatype pyobj =
    PyNone
  | PyStr string
  | PyInt int
  | PyBool bool
  | PyTuple "pyobj list"
  | PyList "pyobj list"
  | PyValue Value
  | PyObject string "(string \<times> pyobj) list"

text \<open>A list is not hashable, and a tuple is when its items are.\<close>

fun hashable :: "pyobj \<Rightarrow> bool" where
  "hashable (PyList xs) = False"
| "hashable (PyTuple xs) = list_all hashable xs"
| "hashable x = True"

text \<open>
  How a call that may wait ends: it returns a value, it raises, or it stays blocked because
  an event it waits for is not set.
\<close>

datatype outcome = Returned pyobj | Raised error | Blocked

definition outcome_of :: "error + pyobj \<Rightarrow> outcome" where
  "outcome_of x = (case x of Inl e \<Rightarrow> Raised e | Inr y \<Rightarrow> Returned y)"

section \<open>The Recon parser (\<open>swimai/reacon/parsers.py\<close>)\<close>

subsection \<open>\<open>InputMessage\<close>\<close>

record InputMessage =
  message :: string
  index :: nat

definition InputMessage_init :: "string \<Rightarrow> InputMessage" where
  "InputMessage_init s = \<lparr>message = s, index = 0\<rparr>"

text \<open>
  \<open>head\<close> is \<open>self.message[self.index]\<close>. The index starts at 0 and only grows, so the
  read raises \<open>IndexError\<close> exactly when the index has reached the length.
\<close>

definition head :: "InputMessage \<Rightarrow> error + char" where
  "head m = (if index m < length (message m) then Inr (message m ! index m) else Inl IndexError)"

text \<open>
  \<open>step\<close> increments the index and returns the new head; the increment is kept in the
  message that is returned with the character.
\<close>

definition step :: "InputMessage \<Rightarrow> error + (char \<times> InputMessage)" where
  "step m =
     (let m' = m\<lparr>index := index m + 1\<rparr>
      in case head m' of Inl e \<Rightarrow> Inl e | Inr c \<Rightarrow> Inr (c, m'))"

subsection \<open>\<open>ReconUtils\<close>\<close>

text \<open>
  \<open>swimai/reacon/utils.py\<close> is not among the source files: the two character classes
  that \<open>IdentParser\<close> asks it for are parameters of the parser, applied to \<open>ord(char)\<close>.
\<close>

record ReconUtils =
  is_ident_start_char :: "nat \<Rightarrow> bool"
  is_ident_char :: "nat \<Rightarrow> bool"

definition ord :: "char \<Rightarrow> nat" where
  "ord c = of_char c"

definition is_letter :: "nat \<Rightarrow> bool" where
  "is_letter n \<longleftrightarrow> (65 \<le> n \<and> n \<le> 90) \<or> (97 \<le> n \<and> n \<le> 122)"

definition is_digit :: "nat \<Rightarrow> bool" where
  "is_digit n \<longleftrightarrow> 48 \<le> n \<and> n \<le> 57"

text \<open>
  Modelled from the spec: \<open>ReconUtils.is_ident_start_char\<close> and
  \<open>ReconUtils.is_ident_char\<close> of \<open>swimai/reacon/utils.py\<close>. Identifiers begin with a
  letter or underscore and continue with letters, digits, underscores, \<open>-\<close> and \<open>.\<close>.
  The concrete runs below use this instance.
\<close>

definition spec_ReconUtils :: ReconUtils where
  "spec_ReconUtils =
     \<lparr>is_ident_start_char = (\<lambda>n. is_letter n \<or> n = 95),
      is_ident_char = (\<lambda>n. is_letter n \<or> n = 95 \<or> is_digit n \<or> n = 45 \<or> n = 46)\<rparr>"

subsection \<open>\<open>ReconStructureParser.create_ident\<close>\<close>

text \<open>
  \<open>isinstance(value, Text)\<close>: \<open>Text\<close> is the structure class, so only an instance of
  it passes; \<open>None\<close> and a native \<open>str\<close> do not.
\<close>

fun isinstance_Text :: "pyobj \<Rightarrow> bool" where
  "isinstance_Text (PyValue (Text s)) = True"
| "isinstance_Text x = False"

text \<open>
  Modelled from the spec: comparing with a \<open>str\<close> (\<open>value == 'true'\<close>) and
  \<open>Text.get_from\<close>, both of the absent structure module. A \<open>Text\<close> is taken to equal the
  \<open>str\<close> it holds, so that the \<open>Bool\<close> branch of \<open>create_ident\<close> can be reached with a
  \<open>Text\<close> argument; \<open>Text.get_from\<close> of a \<open>str\<close> is the \<open>Text\<close> of that string.
\<close>

fun eq_str :: "pyobj \<Rightarrow> string \<Rightarrow> bool" where
  "eq_str (PyStr s) t = (s = t)"
| "eq_str (PyValue (Text s)) t = (s = t)"
| "eq_str x t = False"

fun Text_get_from :: "pyobj \<Rightarrow> Value" where
  "Text_get_from (PyStr s) = Text s"
| "Text_get_from (PyValue v) = v"
| "Text_get_from x = Text []"

definition Bool_get_from :: "bool \<Rightarrow> Value" where
  "Bool_get_from b = Bool b"

definition create_ident :: "pyobj \<Rightarrow> Value" where
  "create_ident v =
     (if isinstance_Text v
      then (if eq_str v ''true'' then Bool_get_from True
            else if eq_str v ''false'' then Bool_get_from False
            else Text_get_from v)
      else Text_get_from v)"

subsection \<open>\<open>IdentParser.parse\<close>\<close>

text \<open>
  The \<open>while\<close> loop of \<open>IdentParser.parse\<close>: as long as the current character is an
  identifier character it is appended to the output and the message steps. The loop ends
  at the first other character, or with the \<open>IndexError\<close> of \<open>step\<close>.
\<close>

function ident_loop ::
  "ReconUtils \<Rightarrow> InputMessage \<Rightarrow> string \<Rightarrow> char \<Rightarrow> error + (string \<times> InputMessage)" where
  "ident_loop U m out c =
     (if is_ident_char U (ord c)
      then (case step m of
              Inl e \<Rightarrow> Inl e
            | Inr (c', m') \<Rightarrow> ident_loop U m' (out @ [c]) c')
      else Inr (out, m))"
  by pat_completeness auto
termination
  by (relation "measure (\<lambda>(U, m, out, c). length (message m) - index m)")
     (auto simp: step_def head_def Let_def split: if_splits)

declare ident_loop.simps [simp del]

text \<open>
  \<open>IdentParser.parse(message, parser, output)\<close> with a \<open>ReconStructureParser\<close> as the
  parser (the only class that defines \<open>create_ident\<close>). \<open>output\<close> is \<open>None\<close> or a \<open>str\<close>.
  The result is the created value and the message as the parser left it.
\<close>

definition output_obj :: "string option \<Rightarrow> pyobj" where
  "output_obj output = (case output of None \<Rightarrow> PyNone | Some s \<Rightarrow> PyStr s)"

definition IdentParser_parse ::
  "ReconUtils \<Rightarrow> InputMessage \<Rightarrow> string option \<Rightarrow> error + (Value \<times> InputMessage)" where
  "IdentParser_parse U m output =
     (case head m of
        Inl e \<Rightarrow> Inl e
      | Inr c \<Rightarrow>
          if is_ident_start_char U (ord c)
          then (let out0 = (case output of None \<Rightarrow> [] | Some s \<Rightarrow> s)
                in case step m of
                     Inl e \<Rightarrow> Inl e
                   | Inr (c', m') \<Rightarrow>
                       (case ident_loop U m' (out0 @ [c]) c' of
                          Inl e \<Rightarrow> Inl e
                        | Inr (out, m'') \<Rightarrow> Inr (create_ident (PyStr out), m'')))
          else Inr (create_ident (output_obj output), m))"

definition parse_ident :: "ReconUtils \<Rightarrow> InputMessage \<Rightarrow> error + (Value \<times> InputMessage)" where
  "parse_ident U m = IdentParser_parse U m None"

section \<open>Downlinks (\<open>swimai/client/downlinks/downlinks.py\<close>)\<close>

subsection \<open>What the downlinks import\<close>

text \<open>
  An envelope: its tag, its route and its body. The class (\<open>swimai.warp.Envelope\<close>) is
  not among the source files; the fields are the spec's.
\<close>

record Envelope =
  tag :: string
  node :: string
  lane :: string
  body :: Value

text \<open>
  \<open>registered_classes\<close> is a dict from a class name to the class, here named again.
  \<open>dict.update\<close> assigns every entry of the other dict in its order.
\<close>

type_synonym classes = "(string \<times> string) list"

definition dict_update :: "('k \<times> 'v) list \<Rightarrow> ('k \<times> 'v) list \<Rightarrow> ('k \<times> 'v) list" where
  "dict_update d other = foldl (\<lambda>acc (k, v). AList.update k v acc) d other"

text \<open>
  The functions of the absent modules \<open>swimai.structures\<close>, \<open>swimai.recon\<close>,
  \<open>swimai.warp\<close> and \<open>downlink_utils\<close> that the downlinks call are parameters of the model.
  The reads of a body can raise (a value without the attribute gives an \<open>AttributeError\<close>):
  the \<open>tag\<close> of a body, \<open>get_head()\<close>, the \<open>value\<close> of an item and \<open>get_body()\<close>; so can the
  record converter's \<open>record_to_object\<close>. The emitters and constructors are taken as total:
  \<open>Recon.to_string\<close>, an envelope's \<open>to_recon\<close>, the converter's \<open>object_to_record\<close>,
  \<open>CommandMessage(node_uri, lane_uri, body)\<close>, \<open>UpdateRequest(key, value).to_record()\<close> and
  \<open>RemoveRequest(key).to_record()\<close>.
\<close>

record structs =
  body_tag :: "Value \<Rightarrow> error + string option"
  get_head :: "Value \<Rightarrow> error + item"
  item_value :: "item \<Rightarrow> error + Value"
  get_body :: "Value \<Rightarrow> error + Value"
  record_to_object :: "Value \<Rightarrow> classes \<Rightarrow> bool \<Rightarrow> error + pyobj"
  to_string :: "Value \<Rightarrow> string"
  to_recon :: "Envelope \<Rightarrow> string"
  object_to_record :: "pyobj \<Rightarrow> Value"
  command_message :: "string option \<Rightarrow> string option \<Rightarrow> Value \<Rightarrow> Envelope"
  update_request :: "pyobj \<Rightarrow> pyobj \<Rightarrow> Value"
  remove_request :: "pyobj \<Rightarrow> Value"

definition Value_absent :: pyobj where
  "Value_absent = PyValue Absent"

subsection \<open>Objects and the heap\<close>

text \<open>
  Managers, models and views refer to each other, so they live in a heap and a field that
  holds an object holds its reference. A connection is the list of frames handed to its
  \<open>send_message\<close>; the client is the list of tasks handed to its \<open>schedule_task\<close>.
\<close>

type_synonym ref = nat

datatype coroutine =
    Callback nat
  | Add_downlink_view ref
  | Remove_downlink_view ref
  | Wait_for_messages ref
  | Close_model ref
  | Get_value ref
  | Send_message ref
  | Put_message ref
  | Remove_message ref

type_synonym task = "coroutine \<times> pyobj list"

datatype task_state = Running | Cancelled

datatype kind = EventKind | ValueKind | MapKind

text \<open>
  Modelled from the spec: the \<open>DownlinkManager\<close> of \<open>swimai/client/connections.py\<close>, which
  is not among the source files. It owns one model, holds its views (the subscribers), a
  merged \<open>registered_classes\<close> map and a \<open>strict\<close> flag, and \<open>is_open\<close>.
\<close>

record DownlinkManager =
  registered_classes :: classes
  strict :: bool
  manager_is_open :: bool
  downlink_model :: ref
  subscribers :: "ref list"

text \<open>
  The three model classes share one record: \<open>kind\<close> says which class the object is,
  \<open>model_value\<close> is the \<open>value\<close> of a \<open>ValueDownlinkModel\<close>, \<open>model_map\<close> the \<open>map\<close> of a
  \<open>MapDownlinkModel\<close> (a dict in insertion order, from the Recon string of a key to the
  tuple \<open>(key, value)\<close>), \<open>synced\<close> the event of both. \<open>linked\<close> is the flag of the
  \<open>asyncio.Event\<close> and \<open>linked_waiters\<close> the \<open>send_message\<close> coroutines suspended in
  \<open>await self.linked.wait()\<close>, each with the envelope it was called with.
\<close>

record DownlinkModel =
  kind :: kind
  host_uri :: "string option"
  node_uri :: "string option"
  lane_uri :: "string option"
  task :: "task_state option"
  connection :: "ref option"
  linked :: bool
  linked_waiters :: "Envelope list"
  downlink_manager :: "ref option"
  model_value :: pyobj
  model_map :: "(string \<times> (pyobj \<times> pyobj)) list"
  synced :: bool

text \<open>
  The three view classes share one record as well. \<open>private_strict\<close>,
  \<open>private_registered_classes\<close> and \<open>private_deregister_classes\<close> are the name-mangled
  \<open>__strict\<close>, \<open>__registered_classes\<close> and \<open>__deregister_classes\<close>.
\<close>

record DownlinkView =
  view_kind :: kind
  view_host_uri :: "string option"
  view_node_uri :: "string option"
  view_lane_uri :: "string option"
  is_open :: bool
  view_connection :: "ref option"
  model :: "ref option"
  view_downlink_manager :: "ref option"
  private_registered_classes :: classes
  private_deregister_classes :: "string list"
  private_strict :: bool
  on_event_callback :: "nat option"
  did_set_callback :: "nat option"
  did_update_callback :: "nat option"
  did_remove_callback :: "nat option"
  initialised :: bool

record heap =
  managers :: "ref \<Rightarrow> DownlinkManager"
  models :: "ref \<Rightarrow> DownlinkModel"
  views :: "ref \<Rightarrow> DownlinkView"
  outbox :: "ref \<Rightarrow> string list"
  scheduled :: "task list"

definition upd_manager :: "heap \<Rightarrow> ref \<Rightarrow> (DownlinkManager \<Rightarrow> DownlinkManager) \<Rightarrow> heap" where
  "upd_manager H r f = H\<lparr>managers := (managers H)(r := f (managers H r))\<rparr>"

definition upd_model :: "heap \<Rightarrow> ref \<Rightarrow> (DownlinkModel \<Rightarrow> DownlinkModel) \<Rightarrow> heap" where
  "upd_model H r f = H\<lparr>models := (models H)(r := f (models H r))\<rparr>"

definition upd_view :: "heap \<Rightarrow> ref \<Rightarrow> (DownlinkView \<Rightarrow> DownlinkView) \<Rightarrow> heap" where
  "upd_view H r f = H\<lparr>views := (views H)(r := f (views H r))\<rparr>"

text \<open>
  Modelled from the spec: \<open>SwimClient.schedule_task\<close> (\<open>swimai/client/swim_client.py\<close> is not
  among the source files) submits the coroutine with its arguments to the loop, and
  \<open>Connection.send_message\<close> enqueues the frame on the connection's writer.
\<close>

definition schedule_task :: "heap \<Rightarrow> task \<Rightarrow> heap" where
  "schedule_task H t = H\<lparr>scheduled := scheduled H @ [t]\<rparr>"

definition connection_send_message :: "heap \<Rightarrow> ref \<Rightarrow> string \<Rightarrow> heap" where
  "connection_send_message H c frame = H\<lparr>outbox := (outbox H)(c := outbox H c @ [frame])\<rparr>"

subsection \<open>\<open>DownlinkModel\<close>\<close>

definition DownlinkModel_init :: "kind \<Rightarrow> DownlinkModel" where
  "DownlinkModel_init k =
     \<lparr>kind = k, host_uri = None, node_uri = None, lane_uri = None, task = None,
      connection = None, linked = False, linked_waiters = [], downlink_manager = None,
      model_value = Value_absent, model_map = [], synced = False\<rparr>"

text \<open>
  \<open>open\<close> schedules the connection's \<open>wait_for_messages\<close> and keeps the task; the private
  coroutine \<open>__close\<close>, scheduled by \<open>close\<close>, cancels it. A \<open>None\<close> in \<open>self.connection\<close> or
  \<open>self.task\<close> is the \<open>AttributeError\<close> of the attribute read.
\<close>

definition DownlinkModel_open :: "heap \<Rightarrow> ref \<Rightarrow> error + heap" where
  "DownlinkModel_open H r =
     (case connection (models H r) of
        None \<Rightarrow> Inl (AttributeError ''wait_for_messages'')
      | Some c \<Rightarrow>
          Inr (upd_model (schedule_task H (Wait_for_messages c, [])) r (\<lambda>m. m\<lparr>task := Some Running\<rparr>)))"

definition DownlinkModel_close :: "heap \<Rightarrow> ref \<Rightarrow> heap" where
  "DownlinkModel_close H r = schedule_task H (Close_model r, [])"

definition DownlinkModel_close_task :: "heap \<Rightarrow> ref \<Rightarrow> error + heap" where
  "DownlinkModel_close_task H r =
     (case task (models H r) of
        None \<Rightarrow> Inl (AttributeError ''cancel'')
      | Some t \<Rightarrow> Inr (upd_model H r (\<lambda>m. m\<lparr>task := Some Cancelled\<rparr>)))"

definition receive_linked :: "heap \<Rightarrow> ref \<Rightarrow> error + heap" where
  "receive_linked H r = Inr (upd_model H r (\<lambda>m. m\<lparr>linked := True\<rparr>))"

text \<open>The f-string prints \<open>None\<close> for a lane that was never set.\<close>

definition format_uri :: "string option \<Rightarrow> string" where
  "format_uri u = (case u of None \<Rightarrow> ''None'' | Some s \<Rightarrow> s)"

definition lane_not_found_message :: "string option \<Rightarrow> string" where
  "lane_not_found_message u =
     ''Lane '' @ [CHR 0x22] @ format_uri u @ [CHR 0x22] @ '' was not found on the remote agent!''"

text \<open>
  \<open>receive_unlinked\<close> assigns nothing. Its result is the exception it raises, if any (that
  of reading \<open>message.body.tag\<close>, or the one for the lane), together with the heap it
  leaves, which is the heap it was given.
\<close>

definition receive_unlinked :: "structs \<Rightarrow> heap \<Rightarrow> ref \<Rightarrow> Envelope \<Rightarrow> error option \<times> heap" where
  "receive_unlinked S H r msg =
     (case body_tag S (body msg) of
        Inl e \<Rightarrow> (Some e, H)
      | Inr t \<Rightarrow>
          if t = Some ''laneNotFound''
          then (Some (Exception (lane_not_found_message (lane_uri (models H r)))), H)
          else (None, H))"

subsection \<open>Views: the callbacks\<close>

text \<open>
  Each \<open>execute_\<close> method schedules the user's callback with the arguments, when one is
  registered.
\<close>

definition execute_on_event :: "heap \<Rightarrow> ref \<Rightarrow> pyobj \<Rightarrow> heap" where
  "execute_on_event H v event =
     (case on_event_callback (views H v) of
        Some cb \<Rightarrow> schedule_task H (Callback cb, [event])
      | None \<Rightarrow> H)"

definition execute_did_set :: "heap \<Rightarrow> ref \<Rightarrow> pyobj \<Rightarrow> pyobj \<Rightarrow> heap" where
  "execute_did_set H v current_value old_value =
     (case did_set_callback (views H v) of
        Some cb \<Rightarrow> schedule_task H (Callback cb, [current_value, old_value])
      | None \<Rightarrow> H)"

definition execute_did_update :: "heap \<Rightarrow> ref \<Rightarrow> pyobj \<Rightarrow> pyobj \<Rightarrow> pyobj \<Rightarrow> heap" where
  "execute_did_update H v key new_value old_value =
     (case did_update_callback (views H v) of
        Some cb \<Rightarrow> schedule_task H (Callback cb, [key, new_value, old_value])
      | None \<Rightarrow> H)"

definition execute_did_remove :: "heap \<Rightarrow> ref \<Rightarrow> pyobj \<Rightarrow> pyobj \<Rightarrow> heap" where
  "execute_did_remove H v key old_value =
     (case did_remove_callback (views H v) of
        Some cb \<Rightarrow> schedule_task H (Callback cb, [key, old_value])
      | None \<Rightarrow> H)"

subsection \<open>The manager's fan-out\<close>

text \<open>
  Modelled from the spec: \<open>subscribers_on_event\<close>, \<open>subscribers_did_set\<close>,
  \<open>subscribers_did_update\<close> and \<open>subscribers_did_remove\<close> of the absent \<open>DownlinkManager\<close>
  fan out to all attached views, in their order, through the view's \<open>execute_\<close> method.
\<close>

definition subscribers_on_event :: "heap \<Rightarrow> ref \<Rightarrow> pyobj \<Rightarrow> heap" where
  "subscribers_on_event H mg event =
     foldl (\<lambda>H' v. execute_on_event H' v event) H (subscribers (managers H mg))"

definition subscribers_did_set :: "heap \<Rightarrow> ref \<Rightarrow> pyobj \<Rightarrow> pyobj \<Rightarrow> heap" where
  "subscribers_did_set H mg current_value old_value =
     foldl (\<lambda>H' v. execute_did_set H' v current_value old_value) H (subscribers (managers H mg))"

definition subscribers_did_update :: "heap \<Rightarrow> ref \<Rightarrow> pyobj \<Rightarrow> pyobj \<Rightarrow> pyobj \<Rightarrow> heap" where
  "subscribers_did_update H mg key new_value old_value =
     foldl (\<lambda>H' v. execute_did_update H' v key new_value old_value) H (subscribers (managers H mg))"

definition subscribers_did_remove :: "heap \<Rightarrow> ref \<Rightarrow> pyobj \<Rightarrow> pyobj \<Rightarrow> heap" where
  "subscribers_did_remove H mg key old_value =
     foldl (\<lambda>H' v. execute_did_remove H' v key old_value) H (subscribers (managers H mg))"

subsection \<open>\<open>EventDownlinkModel\<close> and \<open>ValueDownlinkModel\<close>\<close>

text \<open>
  The decoding shared by \<open>EventDownlinkModel.receive_event\<close> and
  \<open>ValueDownlinkModel.__set_value\<close>: an absent body is \<open>Value.absent()\<close>, a \<open>Text\<close>, \<open>Num\<close> or
  \<open>Bool\<close> body is itself, anything else goes through the record converter with the
  manager's classes and strict flag.
\<close>

fun is_primitive :: "Value \<Rightarrow> bool" where
  "is_primitive (Text s) = True"
| "is_primitive (Num n) = True"
| "is_primitive (Bool b) = True"
| "is_primitive v = False"

definition decode_body :: "structs \<Rightarrow> DownlinkManager \<Rightarrow> Value \<Rightarrow> error + pyobj" where
  "decode_body S mg b =
     (if b = Absent then Inr Value_absent
      else if is_primitive b then Inr (PyValue b)
      else record_to_object S b (registered_classes mg) (strict mg))"

definition EventDownlinkModel_receive_synced :: "heap \<Rightarrow> ref \<Rightarrow> error + heap" where
  "EventDownlinkModel_receive_synced H r =
     Inl (TypeError ''Event downlink does not support synced responses!'')"

definition EventDownlinkModel_receive_event :: "structs \<Rightarrow> heap \<Rightarrow> ref \<Rightarrow> Envelope \<Rightarrow> error + heap" where
  "EventDownlinkModel_receive_event S H r msg =
     (case downlink_manager (models H r) of
        None \<Rightarrow> Inl (AttributeError ''subscribers_on_event'')
      | Some mg \<Rightarrow>
          (case decode_body S (managers H mg) (body msg) of
             Inl e \<Rightarrow> Inl e
           | Inr event \<Rightarrow> Inr (subscribers_on_event H mg event)))"

definition ValueDownlinkModel_receive_synced :: "heap \<Rightarrow> ref \<Rightarrow> error + heap" where
  "ValueDownlinkModel_receive_synced H r = Inr (upd_model H r (\<lambda>m. m\<lparr>synced := True\<rparr>))"

definition ValueDownlinkModel_set_value :: "structs \<Rightarrow> heap \<Rightarrow> ref \<Rightarrow> Envelope \<Rightarrow> error + heap" where
  "ValueDownlinkModel_set_value S H r msg =
     (let old_value = model_value (models H r)
      in case downlink_manager (models H r) of
           None \<Rightarrow> Inl (AttributeError ''subscribers_did_set'')
         | Some mg \<Rightarrow>
             (case decode_body S (managers H mg) (body msg) of
                Inl e \<Rightarrow> Inl e
              | Inr v \<Rightarrow>
                  Inr (subscribers_did_set (upd_model H r (\<lambda>m. m\<lparr>model_value := v\<rparr>)) mg v old_value)))"

definition ValueDownlinkModel_receive_event :: "structs \<Rightarrow> heap \<Rightarrow> ref \<Rightarrow> Envelope \<Rightarrow> error + heap" where
  "ValueDownlinkModel_receive_event S H r msg = ValueDownlinkModel_set_value S H r msg"

subsection \<open>\<open>MapDownlinkModel\<close>\<close>

text \<open>
  A tuple or a list indexed by position. The entries of the map are the tuples
  \<open>(key, value)\<close>; the default of \<open>get\<close> and \<open>pop\<close> is the one-element list
  \<open>[Value.absent()]\<close>; both are then indexed with \<open>[0]\<close>.
\<close>

definition tuple_items :: "pyobj \<times> pyobj \<Rightarrow> pyobj list" where
  "tuple_items e = [fst e, snd e]"

definition dict_get :: "('k \<times> pyobj \<times> pyobj) list \<Rightarrow> 'k \<Rightarrow> pyobj list \<Rightarrow> pyobj list" where
  "dict_get d k dflt = (case map_of d k of Some e \<Rightarrow> tuple_items e | None \<Rightarrow> dflt)"

definition MapDownlinkModel_receive_synced :: "heap \<Rightarrow> ref \<Rightarrow> error + heap" where
  "MapDownlinkModel_receive_synced H r = Inr (upd_model H r (\<lambda>m. m\<lparr>synced := True\<rparr>))"

text \<open>
  The key of an update or a remove: \<open>message.body.get_head().value.get_head().value\<close>.
\<close>

definition head_key :: "structs \<Rightarrow> Value \<Rightarrow> error + Value" where
  "head_key S b =
     (case get_head S b of
        Inl e \<Rightarrow> Inl e
      | Inr i \<Rightarrow>
          (case item_value S i of
             Inl e \<Rightarrow> Inl e
           | Inr a \<Rightarrow>
               (case get_head S a of
                  Inl e \<Rightarrow> Inl e
                | Inr j \<Rightarrow> item_value S j)))"

text \<open>
  The arguments of a call are evaluated from the left: the key is read from the body before
  \<open>self.downlink_manager\<close> is read, whose \<open>None\<close> is an \<open>AttributeError\<close>.
\<close>

definition MapDownlinkModel_receive_update :: "structs \<Rightarrow> heap \<Rightarrow> ref \<Rightarrow> Envelope \<Rightarrow> error + heap" where
  "MapDownlinkModel_receive_update S H r msg =
     (case head_key S (body msg) of
        Inl e \<Rightarrow> Inl e
      | Inr hk \<Rightarrow>
     (case downlink_manager (models H r) of
        None \<Rightarrow> Inl (AttributeError ''registered_classes'')
      | Some mg \<Rightarrow>
     (case record_to_object S hk (registered_classes (managers H mg)) (strict (managers H mg)) of
        Inl e \<Rightarrow> Inl e
      | Inr key \<Rightarrow>
     (case get_body S (body msg) of
        Inl e \<Rightarrow> Inl e
      | Inr b \<Rightarrow>
     (case record_to_object S b (registered_classes (managers H mg)) (strict (managers H mg)) of
        Inl e \<Rightarrow> Inl e
      | Inr val \<Rightarrow>
          (let recon_key = to_string S hk;
               old_value = dict_get (model_map (models H r)) recon_key [Value_absent] ! 0;
               H1 = upd_model H r
                      (\<lambda>m. m\<lparr>model_map := AList.update recon_key (key, val) (model_map m)\<rparr>)
           in Inr (subscribers_did_update H1 mg key val old_value)))))))"

definition MapDownlinkModel_receive_remove :: "structs \<Rightarrow> heap \<Rightarrow> ref \<Rightarrow> Envelope \<Rightarrow> error + heap" where
  "MapDownlinkModel_receive_remove S H r msg =
     (case head_key S (body msg) of
        Inl e \<Rightarrow> Inl e
      | Inr hk \<Rightarrow>
     (case downlink_manager (models H r) of
        None \<Rightarrow> Inl (AttributeError ''registered_classes'')
      | Some mg \<Rightarrow>
     (case record_to_object S hk (registered_classes (managers H mg)) (strict (managers H mg)) of
        Inl e \<Rightarrow> Inl e
      | Inr key \<Rightarrow>
          (let recon_key = to_string S hk;
               old_value = dict_get (model_map (models H r)) recon_key [Value_absent] ! 0;
               H1 = upd_model H r
                      (\<lambda>m. m\<lparr>model_map := AList.delete recon_key (model_map m)\<rparr>)
           in Inr (subscribers_did_remove H1 mg key old_value)))))"

text \<open>
  The two tests of \<open>receive_event\<close> are two \<open>if\<close>s, one after the other, and each reads
  \<open>message.body.tag\<close>.
\<close>

definition MapDownlinkModel_receive_event :: "structs \<Rightarrow> heap \<Rightarrow> ref \<Rightarrow> Envelope \<Rightarrow> error + heap" where
  "MapDownlinkModel_receive_event S H r msg =
     (case body_tag S (body msg) of
        Inl e \<Rightarrow> Inl e
      | Inr t \<Rightarrow>
          (case (if t = Some ''update''
                 then MapDownlinkModel_receive_update S H r msg else Inr H) of
             Inl e \<Rightarrow> Inl e
           | Inr H1 \<Rightarrow>
               if t = Some ''remove''
               then MapDownlinkModel_receive_remove S H1 r msg else Inr H1))"

subsection \<open>\<open>DownlinkModel.receive_message\<close>\<close>

text \<open>The abstract methods, by the class of the object.\<close>

definition receive_synced :: "heap \<Rightarrow> ref \<Rightarrow> error + heap" where
  "receive_synced H r =
     (case kind (models H r) of
        EventKind \<Rightarrow> EventDownlinkModel_receive_synced H r
      | ValueKind \<Rightarrow> ValueDownlinkModel_receive_synced H r
      | MapKind \<Rightarrow> MapDownlinkModel_receive_synced H r)"

definition receive_event :: "structs \<Rightarrow> heap \<Rightarrow> ref \<Rightarrow> Envelope \<Rightarrow> error + heap" where
  "receive_event S H r msg =
     (case kind (models H r) of
        EventKind \<Rightarrow> EventDownlinkModel_receive_event S H r msg
      | ValueKind \<Rightarrow> ValueDownlinkModel_receive_event S H r msg
      | MapKind \<Rightarrow> MapDownlinkModel_receive_event S H r msg)"

definition receive_message :: "structs \<Rightarrow> heap \<Rightarrow> ref \<Rightarrow> Envelope \<Rightarrow> error + heap" where
  "receive_message S H r msg =
     (if tag msg = ''linked'' then receive_linked H r
      else if tag msg = ''synced'' then receive_synced H r
      else if tag msg = ''event'' then receive_event S H r msg
      else if tag msg = ''unlinked''
      then (case receive_unlinked S H r msg of
              (Some e, H') \<Rightarrow> Inl e
            | (None, H') \<Rightarrow> Inr H')
      else Inr H)"

subsection \<open>\<open>send_message\<close> of the value and map models\<close>

text \<open>
  \<open>await self.linked.wait()\<close> returns at once when the event is set; otherwise the
  coroutine is suspended there, and \<open>asyncio\<close> resumes it only after \<open>set()\<close> has been
  called on the event. No code of the downlinks clears the event. What follows the wait,
  \<open>self.connection.send_message(await message.to_recon())\<close>, is \<open>send_now\<close>.
\<close>

definition send_now :: "structs \<Rightarrow> heap \<Rightarrow> ref \<Rightarrow> Envelope \<Rightarrow> error + heap" where
  "send_now S H r env =
     (case connection (models H r) of
        None \<Rightarrow> Inl (AttributeError ''send_message'')
      | Some c \<Rightarrow> Inr (connection_send_message H c (to_recon S env)))"

definition ValueDownlinkModel_send_message :: "structs \<Rightarrow> heap \<Rightarrow> ref \<Rightarrow> Envelope \<Rightarrow> error + heap" where
  "ValueDownlinkModel_send_message S H r env =
     (if linked (models H r) then send_now S H r env
      else Inr (upd_model H r (\<lambda>m. m\<lparr>linked_waiters := linked_waiters m @ [env]\<rparr>)))"

definition MapDownlinkModel_send_message :: "structs \<Rightarrow> heap \<Rightarrow> ref \<Rightarrow> Envelope \<Rightarrow> error + heap" where
  "MapDownlinkModel_send_message S H r env =
     (if linked (models H r) then send_now S H r env
      else Inr (upd_model H r (\<lambda>m. m\<lparr>linked_waiters := linked_waiters m @ [env]\<rparr>)))"

text \<open>An event model has no \<open>send_message\<close>.\<close>

definition send_message :: "structs \<Rightarrow> heap \<Rightarrow> ref \<Rightarrow> Envelope \<Rightarrow> error + heap" where
  "send_message S H r env =
     (case kind (models H r) of
        EventKind \<Rightarrow> Inl (AttributeError ''send_message'')
      | ValueKind \<Rightarrow> ValueDownlinkModel_send_message S H r env
      | MapKind \<Rightarrow> MapDownlinkModel_send_message S H r env)"

text \<open>
  The loop resumes the first suspended \<open>send_message\<close>, which is possible only once the
  event is set; \<open>None\<close> when there is nothing to resume.
\<close>

definition send_message_resume :: "structs \<Rightarrow> heap \<Rightarrow> ref \<Rightarrow> (error + heap) option" where
  "send_message_resume S H r =
     (case linked_waiters (models H r) of
        [] \<Rightarrow> None
      | env # rest \<Rightarrow>
          if linked (models H r)
          then Some (send_now S (upd_model H r (\<lambda>m. m\<lparr>linked_waiters := rest\<rparr>)) r env)
          else None)"

text \<open>
  \<open>get_value\<close> of the value and map models waits for \<open>synced\<close>. With a key, the map model
  returns item 0 of what the map holds under it, or of the default \<open>[Value.absent()]\<close>.
  The result is that of running the coroutine in the heap \<open>L\<close>.
\<close>

definition ValueDownlinkModel_get_value :: "heap \<Rightarrow> ref \<Rightarrow> outcome" where
  "ValueDownlinkModel_get_value L r =
     (if synced (models L r) then Returned (model_value (models L r)) else Blocked)"

definition MapDownlinkModel_get_value :: "heap \<Rightarrow> ref \<Rightarrow> pyobj \<Rightarrow> outcome" where
  "MapDownlinkModel_get_value L r key =
     (if \<not> synced (models L r) then Blocked
      else if key = PyNone
      then Returned (PyList (map (\<lambda>(k, e). PyTuple (tuple_items e)) (model_map (models L r))))
      else if \<not> hashable key then Raised (TypeError ''unhashable type'')
      else Returned ((case key of
                        PyStr s \<Rightarrow> dict_get (model_map (models L r)) s [Value_absent]
                      | _ \<Rightarrow> [Value_absent]) ! 0))"

text \<open>
  How \<open>await self.model.send_message(message)\<close> ends when it is run in the heap \<open>L\<close>: it
  stays blocked while the model is not linked, raises what \<open>send_message\<close> raises, and
  returns \<open>None\<close> once the frame is handed over.
\<close>

definition send_outcome :: "structs \<Rightarrow> heap \<Rightarrow> ref \<Rightarrow> Envelope \<Rightarrow> outcome" where
  "send_outcome S L r env =
     (case send_message S L r env of
        Inl e \<Rightarrow> Raised e
      | Inr L' \<Rightarrow> if linked (models L r) then Returned PyNone else Blocked)"

text \<open>
  The steps of one downlink model: an inbound envelope is received, \<open>send_message\<close> is
  called with an envelope, or a suspended \<open>send_message\<close> is resumed. A run is any number
  of steps.
\<close>

inductive downlink_step :: "structs \<Rightarrow> ref \<Rightarrow> heap \<Rightarrow> heap \<Rightarrow> bool" for S r where
  step_recv: "receive_message S H r msg = Inr H' \<Longrightarrow> downlink_step S r H H'"
| step_send: "send_message S H r env = Inr H' \<Longrightarrow> downlink_step S r H H'"
| step_resume: "send_message_resume S H r = Some (Inr H') \<Longrightarrow> downlink_step S r H H'"

inductive downlink_run :: "structs \<Rightarrow> ref \<Rightarrow> heap \<Rightarrow> heap \<Rightarrow> bool" for S r where
  run_refl: "downlink_run S r H H"
| run_step: "downlink_run S r H H1 \<Longrightarrow> downlink_step S r H1 H2 \<Longrightarrow> downlink_run S r H H2"

subsection \<open>\<open>DownlinkView\<close>\<close>

definition DownlinkView_init :: "kind \<Rightarrow> DownlinkView" where
  "DownlinkView_init k =
     \<lparr>view_kind = k, view_host_uri = None, view_node_uri = None, view_lane_uri = None,
      is_open = False, view_connection = None, model = None, view_downlink_manager = None,
      private_registered_classes = [], private_deregister_classes = [], private_strict = False,
      on_event_callback = None, did_set_callback = None, did_update_callback = None,
      did_remove_callback = None, initialised = False\<rparr>"

definition DownlinkView_open :: "heap \<Rightarrow> ref \<Rightarrow> heap" where
  "DownlinkView_open H v =
     (if \<not> is_open (views H v)
      then schedule_task (upd_view H v (\<lambda>w. w\<lparr>is_open := True\<rparr>)) (Add_downlink_view v, [])
      else H)"

definition DownlinkView_close :: "heap \<Rightarrow> ref \<Rightarrow> heap" where
  "DownlinkView_close H v =
     (if is_open (views H v)
      then schedule_task (upd_view H v (\<lambda>w. w\<lparr>is_open := False\<rparr>)) (Remove_downlink_view v, [])
      else H)"

text \<open>The properties \<open>registered_classes\<close> and \<open>strict\<close>, and the setter of \<open>strict\<close>.\<close>

definition DownlinkView_registered_classes :: "heap \<Rightarrow> ref \<Rightarrow> classes" where
  "DownlinkView_registered_classes H v =
     (case view_downlink_manager (views H v) of
        None \<Rightarrow> private_registered_classes (views H v)
      | Some mg \<Rightarrow> registered_classes (managers H mg))"

definition DownlinkView_strict :: "heap \<Rightarrow> ref \<Rightarrow> bool" where
  "DownlinkView_strict H v =
     (case view_downlink_manager (views H v) of
        None \<Rightarrow> private_strict (views H v)
      | Some mg \<Rightarrow> strict (managers H mg))"

definition DownlinkView_set_strict :: "heap \<Rightarrow> ref \<Rightarrow> bool \<Rightarrow> heap" where
  "DownlinkView_set_strict H v b =
     (case view_downlink_manager (views H v) of
        Some mg \<Rightarrow> upd_manager H mg (\<lambda>g. g\<lparr>strict := private_strict (views H v)\<rparr>)
      | None \<Rightarrow> upd_view H v (\<lambda>w. w\<lparr>private_strict := b\<rparr>))"

definition assign_manager :: "heap \<Rightarrow> ref \<Rightarrow> ref \<Rightarrow> heap" where
  "assign_manager H v mg =
     (let H1 = upd_view H v (\<lambda>w. w\<lparr>model := Some (downlink_model (managers H mg))\<rparr>);
          H2 = upd_manager H1 mg
                 (\<lambda>g. g\<lparr>registered_classes :=
                          dict_update (registered_classes g) (DownlinkView_registered_classes H1 v)\<rparr>);
          H3 = upd_manager H2 mg (\<lambda>g. g\<lparr>strict := DownlinkView_strict H2 v\<rparr>)
      in upd_view H3 v (\<lambda>w. w\<lparr>view_downlink_manager := Some mg\<rparr>))"

definition EventDownlinkView_register_manager :: "heap \<Rightarrow> ref \<Rightarrow> ref \<Rightarrow> error + heap" where
  "EventDownlinkView_register_manager H v mg = Inr (assign_manager H v mg)"

text \<open>
  A blocking call schedules a coroutine of the view and waits for \<open>task.result()\<close>, which
  returns what the coroutine returns and raises what it raises. The loop runs the
  coroutine later, in a heap \<open>L\<close> that the calls below take as a parameter; while an event
  the coroutine waits for is not set there, the caller stays blocked.
\<close>

definition not_open :: error where
  "not_open = RuntimeError ''Link is not open!''"

subsection \<open>\<open>ValueDownlinkView\<close>\<close>

definition ValueDownlinkView_register_manager :: "heap \<Rightarrow> ref \<Rightarrow> ref \<Rightarrow> error + heap" where
  "ValueDownlinkView_register_manager H v mg =
     (let H1 = assign_manager H v mg;
          H2 = (if manager_is_open (managers H1 mg)
                then execute_did_set H1 v
                       (model_value (models H1 (downlink_model (managers H mg)))) Value_absent
                else H1)
      in Inr (upd_view H2 v (\<lambda>w. w\<lparr>initialised := True\<rparr>)))"

definition ValueDownlinkView_value :: "heap \<Rightarrow> ref \<Rightarrow> pyobj" where
  "ValueDownlinkView_value H v =
     (case model (views H v) of
        None \<Rightarrow> Value_absent
      | Some r \<Rightarrow> model_value (models H r))"

text \<open>The coroutines \<open>__get_value\<close> and \<open>send_message\<close> of the view.\<close>

definition ValueDownlinkView_get_value :: "heap \<Rightarrow> ref \<Rightarrow> outcome" where
  "ValueDownlinkView_get_value L v =
     (if \<not> initialised (views L v) then Blocked
      else (case model (views L v) of
              None \<Rightarrow> Raised (AttributeError ''get_value'')
            | Some r \<Rightarrow> ValueDownlinkModel_get_value L r))"

definition ValueDownlinkView_send_message :: "structs \<Rightarrow> heap \<Rightarrow> ref \<Rightarrow> pyobj \<Rightarrow> outcome" where
  "ValueDownlinkView_send_message S L v x =
     (if \<not> initialised (views L v) then Blocked
      else (let recon = object_to_record S x;
                msg = command_message S (view_node_uri (views L v)) (view_lane_uri (views L v)) recon
            in case model (views L v) of
                 None \<Rightarrow> Raised (AttributeError ''send_message'')
               | Some r \<Rightarrow> send_outcome S L r msg))"

text \<open>\<open>set\<close> returns \<open>None\<close>; when it blocks, only after the task has returned.\<close>

definition returns_None :: "outcome \<Rightarrow> outcome" where
  "returns_None out = (case out of Returned y \<Rightarrow> Returned PyNone | Raised e \<Rightarrow> Raised e | Blocked \<Rightarrow> Blocked)"

definition ValueDownlinkView_get :: "heap \<Rightarrow> heap \<Rightarrow> ref \<Rightarrow> bool \<Rightarrow> outcome \<times> heap" where
  "ValueDownlinkView_get L H v wait_sync =
     (if is_open (views H v)
      then (if wait_sync
            then (ValueDownlinkView_get_value L v, schedule_task H (Get_value v, []))
            else (Returned (ValueDownlinkView_value H v), H))
      else (Raised not_open, H))"

definition ValueDownlinkView_set ::
  "structs \<Rightarrow> heap \<Rightarrow> heap \<Rightarrow> ref \<Rightarrow> pyobj \<Rightarrow> bool \<Rightarrow> outcome \<times> heap" where
  "ValueDownlinkView_set S L H v x blocking =
     (if is_open (views H v)
      then ((if blocking then returns_None (ValueDownlinkView_send_message S L v x)
             else Returned PyNone),
            schedule_task H (Send_message v, [x]))
      else (Raised not_open, H))"

subsection \<open>\<open>MapDownlinkView\<close>\<close>

text \<open>
  \<open>for key, value in self.model.map\<close> iterates the keys of the dict, the Recon strings,
  and unpacks each into two targets: a string of two characters gives its characters, any
  other length is a \<open>ValueError\<close>.
\<close>

definition unpack_pair :: "string \<Rightarrow> error + (pyobj \<times> pyobj)" where
  "unpack_pair s =
     (case s of
        [a, b] \<Rightarrow> Inr (PyStr [a], PyStr [b])
      | [] \<Rightarrow> Inl (ValueError ''not enough values to unpack (expected 2, got 0)'')
      | [a] \<Rightarrow> Inl (ValueError ''not enough values to unpack (expected 2, got 1)'')
      | a # b # c # cs \<Rightarrow> Inl (ValueError ''too many values to unpack (expected 2)''))"

fun replay_map :: "heap \<Rightarrow> ref \<Rightarrow> string list \<Rightarrow> error + heap" where
  "replay_map H v [] = Inr H"
| "replay_map H v (s # ss) =
     (case unpack_pair s of
        Inl e \<Rightarrow> Inl e
      | Inr (key, val) \<Rightarrow> replay_map (execute_did_update H v key val Value_absent) v ss)"

definition MapDownlinkView_register_manager :: "heap \<Rightarrow> ref \<Rightarrow> ref \<Rightarrow> error + heap" where
  "MapDownlinkView_register_manager H v mg =
     (let H1 = assign_manager H v mg
      in case (if manager_is_open (managers H1 mg)
               then replay_map H1 v (map fst (model_map (models H1 (downlink_model (managers H mg)))))
               else Inr H1) of
           Inl e \<Rightarrow> Inl e
         | Inr H2 \<Rightarrow> Inr (upd_view H2 v (\<lambda>w. w\<lparr>initialised := True\<rparr>)))"

definition MapDownlinkView_map :: "heap \<Rightarrow> ref \<Rightarrow> pyobj \<Rightarrow> error + pyobj" where
  "MapDownlinkView_map H v key =
     (case model (views H v) of
        None \<Rightarrow> Inr Value_absent
      | Some r \<Rightarrow>
          if key = PyNone
          then Inr (PyList (map (\<lambda>(k, e). PyTuple (tuple_items e)) (model_map (models H r))))
          else if \<not> hashable key then Inl (TypeError ''unhashable type'')
          else (case key of
                  PyStr s \<Rightarrow>
                    (case map_of (model_map (models H r)) s of
                       Some e \<Rightarrow> Inr (PyTuple (tuple_items e))
                     | None \<Rightarrow> Inr Value_absent)
                | _ \<Rightarrow> Inr Value_absent))"

text \<open>The coroutines \<open>__get_value\<close>, \<open>put_message\<close> and \<open>remove_message\<close> of the view.\<close>

definition MapDownlinkView_get_value :: "heap \<Rightarrow> ref \<Rightarrow> pyobj \<Rightarrow> outcome" where
  "MapDownlinkView_get_value L v key =
     (if \<not> initialised (views L v) then Blocked
      else (case model (views L v) of
              None \<Rightarrow> Raised (AttributeError ''get_value'')
            | Some r \<Rightarrow> MapDownlinkModel_get_value L r key))"

definition MapDownlinkView_put_message :: "structs \<Rightarrow> heap \<Rightarrow> ref \<Rightarrow> pyobj \<Rightarrow> pyobj \<Rightarrow> outcome" where
  "MapDownlinkView_put_message S L v key x =
     (if \<not> initialised (views L v) then Blocked
      else (let msg = command_message S (view_node_uri (views L v)) (view_lane_uri (views L v))
                        (update_request S key x)
            in case model (views L v) of
                 None \<Rightarrow> Raised (AttributeError ''send_message'')
               | Some r \<Rightarrow> send_outcome S L r msg))"

definition MapDownlinkView_remove_message :: "structs \<Rightarrow> heap \<Rightarrow> ref \<Rightarrow> pyobj \<Rightarrow> outcome" where
  "MapDownlinkView_remove_message S L v key =
     (if \<not> initialised (views L v) then Blocked
      else (let msg = command_message S (view_node_uri (views L v)) (view_lane_uri (views L v))
                        (remove_request S key)
            in case model (views L v) of
                 None \<Rightarrow> Raised (AttributeError ''send_message'')
               | Some r \<Rightarrow> send_outcome S L r msg))"

definition MapDownlinkView_get :: "heap \<Rightarrow> heap \<Rightarrow> ref \<Rightarrow> pyobj \<Rightarrow> bool \<Rightarrow> outcome \<times> heap" where
  "MapDownlinkView_get L H v key wait_sync =
     (if is_open (views H v)
      then (if wait_sync
            then (MapDownlinkView_get_value L v key, schedule_task H (Get_value v, [key]))
            else (outcome_of (MapDownlinkView_map H v key), H))
      else (Raised not_open, H))"

definition MapDownlinkView_put ::
  "structs \<Rightarrow> heap \<Rightarrow> heap \<Rightarrow> ref \<Rightarrow> pyobj \<Rightarrow> pyobj \<Rightarrow> bool \<Rightarrow> outcome \<times> heap" where
  "MapDownlinkView_put S L H v key x blocking =
     (if is_open (views H v)
      then ((if blocking then returns_None (MapDownlinkView_put_message S L v key x)
             else Returned PyNone),
            schedule_task H (Put_message v, [key, x]))
      else (Raised not_open, H))"

definition MapDownlinkView_remove ::
  "structs \<Rightarrow> heap \<Rightarrow> heap \<Rightarrow> ref \<Rightarrow> pyobj \<Rightarrow> bool \<Rightarrow> outcome \<times> heap" where
  "MapDownlinkView_remove S L H v key blocking =
     (if is_open (views H v)
      then ((if blocking then returns_None (MapDownlinkView_remove_message S L v key)
             else Returned PyNone),
            schedule_task H (Remove_message v, [key]))
      else (Raised not_open, H))"

section \<open>A concrete instance for the runs\<close>

text \<open>
  Modelled from the spec: an instance of the absent structure, Recon and envelope
  functions, used where a property is run on a concrete input. Only a record has a tag, a
  head and a body: on any other value the read raises an \<open>AttributeError\<close>. The tag of a
  record is the name of its head attribute; the body is what follows the head attribute
  (the single value when one bare value follows); the converter maps \<open>Text\<close>, \<open>Num\<close> and
  \<open>Bool\<close> to the Python primitives and back, a record whose head attribute names a
  registered class to an object of that class with the record's slots as attributes, an
  unregistered one to an error in strict mode and to the plain record otherwise; the
  emitter writes a \<open>Text\<close> as an identifier when it is one and is not reserved, otherwise
  quoted, a number in decimal, and an envelope as \<open>@tag(node:...,lane:...)body\<close>. Records are
  not emitted. A command is the envelope with the tag \<open>command\<close>; an update request is
  \<open>@update(key: K) V\<close> and a remove request \<open>@remove(key: K)\<close>.
\<close>

fun spec_tag :: "Value \<Rightarrow> error + string option" where
  "spec_tag (Record (Attr n v # xs)) = Inr (Some n)"
| "spec_tag (Record xs) = Inr None"
| "spec_tag v = Inl (AttributeError ''tag'')"

fun spec_get_head :: "Value \<Rightarrow> error + item" where
  "spec_get_head (Record (x # xs)) = Inr x"
| "spec_get_head v = Inl (AttributeError ''get_head'')"

fun spec_item_value :: "item \<Rightarrow> error + Value" where
  "spec_item_value (Attr n v) = Inr v"
| "spec_item_value (Slot k v) = Inr v"
| "spec_item_value (Item v) = Inr v"

fun spec_get_body :: "Value \<Rightarrow> error + Value" where
  "spec_get_body (Record [x]) = Inr Absent"
| "spec_get_body (Record [x, Item v]) = Inr v"
| "spec_get_body (Record (x # xs)) = Inr (Record xs)"
| "spec_get_body v = Inl (AttributeError ''get_body'')"

fun primitive_object :: "Value \<Rightarrow> pyobj" where
  "primitive_object (Text s) = PyStr s"
| "primitive_object (Num n) = PyInt n"
| "primitive_object (Bool b) = PyBool b"
| "primitive_object v = PyValue v"

fun slot_fields :: "item list \<Rightarrow> (string \<times> pyobj) list" where
  "slot_fields [] = []"
| "slot_fields (Slot (Text k) v # xs) = (k, primitive_object v) # slot_fields xs"
| "slot_fields (x # xs) = slot_fields xs"

fun spec_record_to_object :: "Value \<Rightarrow> classes \<Rightarrow> bool \<Rightarrow> error + pyobj" where
  "spec_record_to_object (Record (Attr n a # xs)) cls st =
     (case map_of cls n of
        Some c \<Rightarrow> Inr (PyObject c (slot_fields xs))
      | None \<Rightarrow>
          if st then Inl (Exception ''unknown type'')
          else Inr (PyValue (Record (Attr n a # xs))))"
| "spec_record_to_object v cls st = Inr (primitive_object v)"

fun decimal :: "nat \<Rightarrow> string" where
  "decimal n = (if n < 10 then [char_of (48 + n)] else decimal (n div 10) @ [char_of (48 + n mod 10)])"

declare decimal.simps [simp del]

definition is_identifier :: "string \<Rightarrow> bool" where
  "is_identifier s \<longleftrightarrow>
     s \<noteq> [] \<and> is_ident_start_char spec_ReconUtils (ord (hd s)) \<and>
     list_all (\<lambda>c. is_ident_char spec_ReconUtils (ord c)) (tl s) \<and>
     s \<noteq> ''true'' \<and> s \<noteq> ''false''"

fun spec_to_string :: "Value \<Rightarrow> string" where
  "spec_to_string (Text s) = (if is_identifier s then s else [CHR 0x22] @ s @ [CHR 0x22])"
| "spec_to_string (Num n) = (if n < 0 then CHR ''-'' # decimal (nat (- n)) else decimal (nat n))"
| "spec_to_string (Bool b) = (if b then ''true'' else ''false'')"
| "spec_to_string v = []"

definition spec_to_recon :: "Envelope \<Rightarrow> string" where
  "spec_to_recon env =
     ''@'' @ tag env @ ''(node:'' @ spec_to_string (Text (node env)) @ '',lane:'' @
     spec_to_string (Text (lane env)) @ '')'' @ spec_to_string (body env)"

fun spec_object_to_record :: "pyobj \<Rightarrow> Value" where
  "spec_object_to_record (PyStr s) = Text s"
| "spec_object_to_record (PyInt n) = Num n"
| "spec_object_to_record (PyBool b) = Bool b"
| "spec_object_to_record (PyValue v) = v"
| "spec_object_to_record x = Absent"

definition spec_command_message :: "string option \<Rightarrow> string option \<Rightarrow> Value \<Rightarrow> Envelope" where
  "spec_command_message n l b =
     \<lparr>tag = ''command'', node = format_uri n, lane = format_uri l, body = b\<rparr>"

definition spec_update_request :: "pyobj \<Rightarrow> pyobj \<Rightarrow> Value" where
  "spec_update_request k x =
     Record [Attr ''update'' (Record [Slot (Text ''key'') (spec_object_to_record k)]),
             Item (spec_object_to_record x)]"

definition spec_remove_request :: "pyobj \<Rightarrow> Value" where
  "spec_remove_request k =
     Record [Attr ''remove'' (Record [Slot (Text ''key'') (spec_object_to_record k)])]"

definition spec_structs :: structs where
  "spec_structs =
     \<lparr>body_tag = spec_tag, get_head = spec_get_head, item_value = spec_item_value,
      get_body = spec_get_body, record_to_object = spec_record_to_object,
      to_string = spec_to_string, to_recon = spec_to_recon,
      object_to_record = spec_object_to_record, command_message = spec_command_message,
      update_request = spec_update_request, remove_request = spec_remove_request\<rparr>"

text \<open>
  One route \<open>a/b\<close>: manager 0 owns model 0 of the given kind, which is linked, on
  connection 0, and has view 0 as its only subscriber; view 0 is open, attached, and has
  callback 1 for \<open>on_event\<close>, \<open>did_set\<close> and \<open>did_update\<close> and callback 2 for
  \<open>did_remove\<close>. View 1 is a second view of the kind, open and with callback 3 for
  \<open>did_update\<close>, not attached yet. Every other view is as its constructor leaves it.
  In \<open>unlinked_heap\<close> the model has not received \<open>linked\<close> yet.
\<close>

definition example_manager :: DownlinkManager where
  "example_manager =
     \<lparr>registered_classes = [], strict = False, manager_is_open = True, downlink_model = 0,
      subscribers = [0]\<rparr>"

definition example_model :: "kind \<Rightarrow> DownlinkModel" where
  "example_model k =
     (DownlinkModel_init k)
       \<lparr>host_uri := Some ''ws://h:9001'', node_uri := Some ''a'', lane_uri := Some ''b'',
        task := Some Running, connection := Some 0, linked := True,
        downlink_manager := Some 0\<rparr>"

definition example_view :: "kind \<Rightarrow> DownlinkView" where
  "example_view k =
     (DownlinkView_init k)
       \<lparr>view_host_uri := Some ''ws://h:9001'', view_node_uri := Some ''a'',
        view_lane_uri := Some ''b'', is_open := True, model := Some 0,
        view_downlink_manager := Some 0, on_event_callback := Some 1,
        did_set_callback := Some 1, did_update_callback := Some 1,
        did_remove_callback := Some 2, initialised := True\<rparr>"

definition late_view :: "kind \<Rightarrow> DownlinkView" where
  "late_view k =
     (DownlinkView_init k)
       \<lparr>view_host_uri := Some ''ws://h:9001'', view_node_uri := Some ''a'',
        view_lane_uri := Some ''b'', is_open := True, did_update_callback := Some 3\<rparr>"

definition example_heap :: "kind \<Rightarrow> heap" where
  "example_heap k =
     \<lparr>managers = (\<lambda>r. example_manager),
      models = (\<lambda>r. example_model k),
      views = (\<lambda>r. if r = 0 then example_view k else if r = 1 then late_view k
                   else DownlinkView_init k),
      outbox = (\<lambda>r. []),
      scheduled = []\<rparr>"

definition unlinked_heap :: "kind \<Rightarrow> heap" where
  "unlinked_heap k = upd_model (example_heap k) 0 (\<lambda>m. m\<lparr>linked := False\<rparr>)"

definition envelope :: "string \<Rightarrow> Value \<Rightarrow> Envelope" where
  "envelope t b = \<lparr>tag = t, node = ''a'', lane = ''b'', body = b\<rparr>"

definition update_body :: "Value \<Rightarrow> Value \<Rightarrow> Value" where
  "update_body k v = Record [Attr ''update'' (Record [Slot (Text ''key'') k]), Item v]"

definition remove_body :: "Value \<Rightarrow> Value" where
  "remove_body k = Record [Attr ''remove'' (Record [Slot (Text ''key'') k])]"

text \<open>
  Modelled from the spec: the reader of the absent connection delivers the inbound
  envelopes of a route to \<open>receive_message\<close> one after the other. An exception that
  \<open>receive_message\<close> raises is not caught by it, so it ends the run.
\<close>

fun receive_all :: "structs \<Rightarrow> heap \<Rightarrow> ref \<Rightarrow> Envelope list \<Rightarrow> error + heap" where
  "receive_all S H r [] = Inr H"
| "receive_all S H r (msg # msgs) =
     (case receive_message S H r msg of
        Inl e \<Rightarrow> Inl e
      | Inr H' \<Rightarrow> receive_all S H' r msgs)"

section \<open>Properties of the parser\<close>

lemma create_ident_str: "create_ident (PyStr s) = Text s"
  by (simp add: create_ident_def)

lemma create_ident_Text_true: "create_ident (PyValue (Text ''true'')) = Bool True"
  by (simp add: create_ident_def Bool_get_from_def)

lemma ident_loop_stops:
  "\<not> is_ident_char U (ord c) \<Longrightarrow> ident_loop U m out c = Inr (out, m)"
  by (simp add: ident_loop.simps [of U m out c])

text \<open>
  When every character from the current one to the end of the message is an identifier
  character, the loop steps past the end.
\<close>

lemma ident_loop_runs_off:
  "index m < length (message m) \<Longrightarrow> c = message m ! index m \<Longrightarrow>
   (\<forall>i. index m \<le> i \<and> i < length (message m) \<longrightarrow> is_ident_char U (ord (message m ! i))) \<Longrightarrow>
   ident_loop U m out c = Inl IndexError"
proof (induction U m out c rule: ident_loop.induct)
  case (1 U m out c)
  from "1.prems" have ic: "is_ident_char U (ord c)" by simp
  show ?case
  proof (cases "Suc (index m) < length (message m)")
    case False
    then have "step m = Inl IndexError"
      by (simp add: step_def head_def Let_def)
    with ic show ?thesis by (simp add: ident_loop.simps [of U m out c])
  next
    case True
    let ?m' = "m\<lparr>index := index m + 1\<rparr>"
    let ?c' = "message m ! Suc (index m)"
    from True have st: "step m = Inr (?c', ?m')"
      by (simp add: step_def head_def Let_def)
    have "ident_loop U ?m' (out @ [c]) ?c' = Inl IndexError"
    proof (rule "1.IH" [OF ic st refl])
      show "index ?m' < length (message ?m')" using True by simp
      show "?c' = message ?m' ! index ?m'" by simp
      show "\<forall>i. index ?m' \<le> i \<and> i < length (message ?m') \<longrightarrow>
                is_ident_char U (ord (message ?m' ! i))"
        using "1.prems"(3) by simp
    qed
    with ic st show ?thesis by (simp add: ident_loop.simps [of U m out c])
  qed
qed

lemma IdentParser_parse_runs_off:
  assumes "index m < length (message m)"
    and "is_ident_start_char U (ord (message m ! index m))"
    and "\<forall>i. index m < i \<and> i < length (message m) \<longrightarrow> is_ident_char U (ord (message m ! i))"
  shows "IdentParser_parse U m output = Inl IndexError"
proof (cases "Suc (index m) < length (message m)")
  case False
  then have "step m = Inl IndexError"
    by (simp add: step_def head_def Let_def)
  with assms(1,2) show ?thesis
    by (simp add: IdentParser_parse_def head_def)
next
  case True
  let ?m' = "m\<lparr>index := index m + 1\<rparr>"
  let ?c' = "message m ! Suc (index m)"
  from True have st: "step m = Inr (?c', ?m')"
    by (simp add: step_def head_def Let_def)
  have "ident_loop U ?m' (out0 @ [message m ! index m]) ?c' = Inl IndexError" for out0
    by (rule ident_loop_runs_off) (use True assms(3) in auto)
  with assms(1,2) st show ?thesis
    by (simp add: IdentParser_parse_def head_def)
qed

lemmas parser_run_defs =
  parse_ident_def IdentParser_parse_def InputMessage_init_def head_def step_def Let_def
  spec_ReconUtils_def ord_def is_letter_def is_digit_def ident_loop.simps create_ident_def

text \<open>
  C3. The claim: parsing the bare identifier \<open>true\<close> yields \<open>Bool(true)\<close>, \<open>false\<close> yields
  \<open>Bool(false)\<close>, any other bare identifier yields the \<open>Text\<close> of it. What the code does:
  \<open>IdentParser.parse\<close> hands \<open>create_ident\<close> the native \<open>str\<close> it has built, which is not an
  instance of \<open>Text\<close>, so the test for \<open>true\<close> and \<open>false\<close> is never reached and the
  identifier \<open>true\<close> (here followed by a closing parenthesis) comes out as \<open>Text\<close>,
  as does \<open>false\<close>; and the identifier \<open>true\<close> alone ends in an \<open>IndexError\<close>.
\<close>

theorem bare_true_is_parsed_as_Text:
  "create_ident (PyStr ''true'') = Text ''true'' \<and>
   create_ident (PyStr ''false'') = Text ''false'' \<and>
   parse_ident spec_ReconUtils (InputMessage_init ''true)'')
     = Inr (Text ''true'', \<lparr>message = ''true)'', index = 4\<rparr>) \<and>
   parse_ident spec_ReconUtils (InputMessage_init ''false)'')
     = Inr (Text ''false'', \<lparr>message = ''false)'', index = 5\<rparr>) \<and>
   parse_ident spec_ReconUtils (InputMessage_init ''true'') = Inl IndexError"
  by (simp add: parser_run_defs)

text \<open>
  C9. The parser is not total: on a message that is a single bare identifier, with no
  character after it (its first character an identifier start, all others identifier
  characters), \<open>IdentParser.parse\<close> keeps stepping until \<open>head\<close> reads past the end of the
  message, and the parse ends in an \<open>IndexError\<close>.
\<close>

theorem bare_identifier_raises_IndexError:
  assumes "s \<noteq> []"
    and "is_ident_start_char U (ord (hd s))"
    and "\<forall>c \<in> set (tl s). is_ident_char U (ord c)"
  shows "parse_ident U (InputMessage_init s) = Inl IndexError"
proof -
  let ?m = "InputMessage_init s"
  from assms(1) have len: "index ?m < length (message ?m)"
    by (simp add: InputMessage_init_def)
  from assms(1,2) have start: "is_ident_start_char U (ord (message ?m ! index ?m))"
    by (simp add: InputMessage_init_def hd_conv_nth)
  have rest: "\<forall>i. index ?m < i \<and> i < length (message ?m) \<longrightarrow>
                  is_ident_char U (ord (message ?m ! i))"
  proof (intro allI impI)
    fix i
    assume "index ?m < i \<and> i < length (message ?m)"
    then have i: "0 < i" "i < length s" by (simp_all add: InputMessage_init_def)
    then have "s ! i = tl s ! (i - 1)" by (simp add: nth_tl)
    moreover from i have "i - 1 < length (tl s)" by simp
    ultimately have "s ! i \<in> set (tl s)" by (metis nth_mem)
    with assms(3) show "is_ident_char U (ord (message ?m ! i))"
      by (simp add: InputMessage_init_def)
  qed
  from len start rest show ?thesis
    unfolding parse_ident_def by (rule IdentParser_parse_runs_off)
qed

theorem bare_identifier_raises_IndexError_witness:
  "parse_ident spec_ReconUtils (InputMessage_init ''lights'') = Inl IndexError"
  using bare_identifier_raises_IndexError [of "''lights''" spec_ReconUtils]
  by (simp add: spec_ReconUtils_def ord_def is_letter_def is_digit_def)

section \<open>Properties of the downlink models\<close>

lemmas example_defs =
  example_heap_def unlinked_heap_def example_manager_def example_model_def example_view_def
  late_view_def envelope_def update_body_def remove_body_def spec_structs_def
  DownlinkModel_init_def DownlinkView_init_def Value_absent_def

lemmas receive_defs =
  receive_message_def receive_linked_def receive_unlinked_def receive_synced_def
  receive_event_def EventDownlinkModel_receive_synced_def EventDownlinkModel_receive_event_def
  ValueDownlinkModel_receive_synced_def ValueDownlinkModel_receive_event_def
  ValueDownlinkModel_set_value_def MapDownlinkModel_receive_synced_def
  MapDownlinkModel_receive_event_def MapDownlinkModel_receive_update_def
  MapDownlinkModel_receive_remove_def decode_body_def head_key_def

lemmas fanout_defs =
  subscribers_on_event_def subscribers_did_set_def subscribers_did_update_def
  subscribers_did_remove_def execute_on_event_def execute_did_set_def execute_did_update_def
  execute_did_remove_def schedule_task_def

lemmas heap_defs = upd_model_def upd_view_def upd_manager_def

lemmas string_defs =
  is_identifier_def spec_ReconUtils_def ord_def is_letter_def is_digit_def

subsection \<open>\<open>unlinked\<close> and \<open>synced\<close>\<close>

lemma receive_message_synced:
  "tag msg = ''synced'' \<Longrightarrow> receive_message S H r msg = receive_synced H r"
  by (simp add: receive_message_def)

lemma receive_unlinked_heap: "snd (receive_unlinked S H r msg) = H"
  by (simp add: receive_unlinked_def split: sum.split)

text \<open>An \<open>unlinked\<close> envelope whose body has no tag to read ends in the error of the read.\<close>

lemma unlinked_without_tag_raises:
  assumes "tag msg = ''unlinked''"
    and "body_tag S (body msg) = Inl e"
  shows "receive_message S H r msg = Inl e"
  using assms by (simp add: receive_message_def receive_unlinked_def)

text \<open>
  C5, as amended. For every downlink model in any state, an \<open>unlinked\<close> envelope whose
  body tag can be read and is not \<open>laneNotFound\<close> is ignored: \<open>receive_unlinked\<close> raises
  nothing, \<open>receive_message\<close> returns normally and everything is left as it was, so the
  model is not closed, no subscriber is notified and the connection reference is kept.
\<close>

theorem unlinked_other_is_ignored:
  assumes "tag msg = ''unlinked''"
    and "body_tag S (body msg) = Inr t"
    and "t \<noteq> Some ''laneNotFound''"
  shows "receive_message S H r msg = Inr H \<and> receive_unlinked S H r msg = (None, H)"
  using assms by (simp add: receive_message_def receive_unlinked_def)

theorem unlinked_other_is_ignored_witness:
  "receive_message spec_structs (example_heap MapKind) 0
     (envelope ''unlinked'' (Record [Attr ''timeout'' Extant]))
   = Inr (example_heap MapKind)"
proof -
  let ?msg = "envelope ''unlinked'' (Record [Attr ''timeout'' Extant])"
  have "tag ?msg = ''unlinked''"
    and "body_tag spec_structs (body ?msg) = Inr (Some ''timeout'')"
    and "Some ''timeout'' \<noteq> Some ''laneNotFound''"
    by (simp_all add: envelope_def spec_structs_def)
  then show ?thesis
    using unlinked_other_is_ignored [of ?msg spec_structs "Some ''timeout''" "example_heap MapKind" 0]
    by blast
qed

text \<open>
  C5, as the claim states it, fails: after an \<open>unlinked\<close> envelope with another body tag,
  the model of the example still holds its connection, its reader task is still running
  and nothing was scheduled for a subscriber.
\<close>

theorem unlinked_other_does_not_close:
  "(case receive_message spec_structs (example_heap MapKind) 0
           (envelope ''unlinked'' (Record [Attr ''timeout'' Extant])) of
      Inl e \<Rightarrow> False
    | Inr H' \<Rightarrow>
        connection (models H' 0) = Some 0 \<and> task (models H' 0) = Some Running \<and>
        linked (models H' 0) \<and> scheduled H' = [])"
  by (simp add: example_defs receive_defs)

text \<open>
  C6, as amended. For every downlink model in any state, an \<open>unlinked\<close> envelope whose
  body tag is \<open>laneNotFound\<close> makes \<open>receive_unlinked\<close>, and with it \<open>receive_message\<close>,
  raise the exception whose message names the lane of the model: \<open>Lane "l" was not found
  on the remote agent!\<close> for the lane \<open>l\<close>. The failure changes nothing in the model: the
  heap that \<open>receive_unlinked\<close> leaves is the heap it was given.
\<close>

theorem lane_not_found_raises:
  assumes "tag msg = ''unlinked''"
    and "body_tag S (body msg) = Inr (Some ''laneNotFound'')"
    and "lane_uri (models H r) = Some l"
  shows "receive_message S H r msg
           = Inl (Exception (''Lane '' @ [CHR 0x22] @ l @ [CHR 0x22] @
                             '' was not found on the remote agent!'')) \<and>
         receive_unlinked S H r msg
           = (Some (Exception (''Lane '' @ [CHR 0x22] @ l @ [CHR 0x22] @
                               '' was not found on the remote agent!'')), H)"
  using assms
  by (simp add: receive_message_def receive_unlinked_def lane_not_found_message_def
      format_uri_def)

theorem lane_not_found_raises_witness:
  "receive_message spec_structs (example_heap ValueKind) 0
     (envelope ''unlinked'' (Record [Attr ''laneNotFound'' Extant]))
   = Inl (Exception (''Lane '' @ [CHR 0x22] @ ''b'' @ [CHR 0x22] @
                     '' was not found on the remote agent!''))"
proof -
  let ?msg = "envelope ''unlinked'' (Record [Attr ''laneNotFound'' Extant])"
  have "tag ?msg = ''unlinked''"
    and "body_tag spec_structs (body ?msg) = Inr (Some ''laneNotFound'')"
    and "lane_uri (models (example_heap ValueKind) 0) = Some ''b''"
    by (simp_all add: example_defs)
  then show ?thesis
    using lane_not_found_raises [of ?msg spec_structs "example_heap ValueKind" 0 "''b''"]
    by blast
qed

text \<open>A model whose lane was never set is named \<open>None\<close> in the message.\<close>

lemma lane_not_found_raises_unset_lane:
  assumes "tag msg = ''unlinked''"
    and "body_tag S (body msg) = Inr (Some ''laneNotFound'')"
    and "lane_uri (models H r) = None"
  shows "receive_message S H r msg
           = Inl (Exception (''Lane '' @ [CHR 0x22] @ ''None'' @ [CHR 0x22] @
                             '' was not found on the remote agent!''))"
  using assms
  by (simp add: receive_message_def receive_unlinked_def lane_not_found_message_def
      format_uri_def)

text \<open>
  C6, as the claim states it, fails: the failure is not terminal for the downlink. On the
  value downlink of the example, \<open>receive_unlinked\<close> raises for \<open>laneNotFound\<close> and leaves
  a model that is still linked, whose reader task is still running and which still holds
  its connection; handed the event \<open>42\<close> afterwards, the model still takes it and fires
  \<open>did_set(42, Absent)\<close>.
\<close>

theorem lane_not_found_is_not_terminal:
  "(case receive_unlinked spec_structs (example_heap ValueKind) 0
           (envelope ''unlinked'' (Record [Attr ''laneNotFound'' Extant])) of
      (None, H') \<Rightarrow> False
    | (Some e, H') \<Rightarrow>
        linked (models H' 0) \<and> task (models H' 0) = Some Running \<and>
        connection (models H' 0) = Some 0 \<and>
        map_sum id scheduled (receive_message spec_structs H' 0 (envelope ''event'' (Num 42)))
          = Inr [(Callback 1, [PyValue (Num 42), PyValue Absent])])"
  by (simp add: example_defs receive_defs fanout_defs heap_defs lane_not_found_message_def)

text \<open>
  C10. \<open>receive_message\<close> hands a \<open>synced\<close> envelope to \<open>receive_synced\<close> whatever the
  kind of the downlink, and for an event downlink that raises the \<open>TypeError\<close>: the
  envelope is not ignored.
\<close>

theorem event_synced_raises_TypeError:
  "(tag msg = ''synced'' \<longrightarrow> receive_message S H r msg = receive_synced H r) \<and>
   (tag msg = ''synced'' \<and> kind (models H r) = EventKind \<longrightarrow>
      receive_message S H r msg
        = Inl (TypeError ''Event downlink does not support synced responses!'')) \<and>
   EventDownlinkModel_receive_synced H r
     = Inl (TypeError ''Event downlink does not support synced responses!'')"
  by (simp add: receive_message_def receive_synced_def EventDownlinkModel_receive_synced_def)

theorem event_synced_raises_TypeError_witness:
  "receive_message spec_structs (example_heap EventKind) 0 (envelope ''synced'' Absent)
   = Inl (TypeError ''Event downlink does not support synced responses!'')"
proof -
  have "tag (envelope ''synced'' Absent) = ''synced'' \<and>
        kind (models (example_heap EventKind) 0) = EventKind"
    by (simp add: example_defs)
  with event_synced_raises_TypeError
    [of "envelope ''synced'' Absent" spec_structs "example_heap EventKind" 0]
  show ?thesis by blast
qed

subsection \<open>The map replica and its callbacks\<close>

text \<open>
  The old value that \<open>__receive_update\<close> and \<open>__receive_remove\<close> deliver is item 0 of
  what the map holds under the key: for a stored tuple \<open>(key, value)\<close> that is the key.
\<close>

lemma old_value_is_stored_key:
  "dict_get d k [Value_absent] ! 0
     = (case map_of d k of Some (key, val) \<Rightarrow> key | None \<Rightarrow> Value_absent)"
  by (simp add: dict_get_def tuple_items_def split: option.split prod.split)

text \<open>
  The same holds for \<open>get_value\<close> of the map model with a key: once synced, it returns the
  key stored under the Recon string, not the value.
\<close>

lemma map_get_value_returns_stored_key:
  assumes "synced (models L r)"
    and "map_of (model_map (models L r)) s = Some (k, x)"
  shows "MapDownlinkModel_get_value L r (PyStr s) = Returned k"
  using assms by (simp add: MapDownlinkModel_get_value_def dict_get_def tuple_items_def)

text \<open>
  C1. The claim: with the decoded value \<open>v\<close> held under key \<open>k\<close>, an \<open>@remove(key: k)\<close>
  fires \<open>did_remove(k, v)\<close> and an \<open>@update(key: k)\<close> fires \<open>did_update\<close> with the previous
  value as the old value, not the key. What the code does, on the spec's own scenario
  (update \<open>k\<close> to \<open>v\<close>, synced, then update \<open>k\<close> to \<open>w\<close> and remove \<open>k\<close>): the first update
  delivers \<open>Absent\<close> as the old value, the second update delivers the key \<open>k\<close> where
  the claim says \<open>v\<close>, and the remove delivers the key \<open>k\<close> where the claim says \<open>w\<close>.
\<close>

theorem map_callbacks_get_key_as_old_value:
  "map_sum id scheduled
     (receive_all spec_structs (example_heap MapKind) 0
        [envelope ''event'' (update_body (Text ''k'') (Text ''v'')),
         envelope ''synced'' Absent,
         envelope ''event'' (update_body (Text ''k'') (Text ''w'')),
         envelope ''event'' (remove_body (Text ''k''))])
   = Inr [(Callback 1, [PyStr ''k'', PyStr ''v'', PyValue Absent]),
          (Callback 1, [PyStr ''k'', PyStr ''w'', PyStr ''k'']),
          (Callback 2, [PyStr ''k'', PyStr ''k''])]"
  by (simp add: example_defs receive_defs fanout_defs heap_defs string_defs
      dict_get_def tuple_items_def Let_def)

subsection \<open>Attaching a view\<close>

lemma unpack_pair_wrong_length:
  "length s \<noteq> 2 \<Longrightarrow> \<exists>e. unpack_pair s = Inl (ValueError e)"
  by (auto simp: unpack_pair_def split: list.splits)

lemma replay_map_wrong_length:
  assumes "length s \<noteq> 2"
  shows "\<exists>e. replay_map H v (s # ss) = Inl (ValueError e)"
proof -
  from assms obtain e where "unpack_pair s = Inl (ValueError e)"
    using unpack_pair_wrong_length by blast
  then show ?thesis by simp
qed

text \<open>
  C2. The claim: a map view attached to a manager whose model is already open gets one
  \<open>did_update(k, v, Absent)\<close> for each entry \<open>(k, v)\<close> of the map, without error for every
  non-empty map. What the code does: the loop iterates the keys of the dict, the Recon
  strings, and unpacks each into two targets. After the update of key \<open>k\<close> to \<open>v\<close>,
  attaching view 1 raises a \<open>ValueError\<close>; after the update of key \<open>ab\<close> to \<open>v\<close> it
  delivers \<open>did_update('a', 'b', Absent)\<close>, the two characters of the key string.
\<close>

theorem late_join_replay_unpacks_key_string:
  "(case receive_message spec_structs (example_heap MapKind) 0
           (envelope ''event'' (update_body (Text ''k'') (Text ''v''))) of
      Inl e \<Rightarrow> Inl e
    | Inr H \<Rightarrow> map_sum id scheduled (MapDownlinkView_register_manager H 1 0))
   = Inl (ValueError ''not enough values to unpack (expected 2, got 1)'') \<and>
   (case receive_message spec_structs (example_heap MapKind) 0
           (envelope ''event'' (update_body (Text ''ab'') (Text ''v''))) of
      Inl e \<Rightarrow> Inl e
    | Inr H \<Rightarrow> map_sum id scheduled (MapDownlinkView_register_manager H 1 0))
   = Inr [(Callback 1, [PyStr ''ab'', PyStr ''v'', PyValue Absent]),
          (Callback 3, [PyStr ''a'', PyStr ''b'', PyValue Absent])]"
  by (simp add: example_defs receive_defs fanout_defs heap_defs string_defs
      dict_get_def tuple_items_def Let_def MapDownlinkView_register_manager_def
      assign_manager_def DownlinkView_registered_classes_def DownlinkView_strict_def
      dict_update_def unpack_pair_def)

subsection \<open>The \<open>strict\<close> property\<close>

lemma strict_read:
  "DownlinkView_strict H v
     = (case view_downlink_manager (views H v) of
          None \<Rightarrow> private_strict (views H v)
        | Some mg \<Rightarrow> strict (managers H mg))"
  by (simp add: DownlinkView_strict_def)

lemma strict_set_unattached:
  "view_downlink_manager (views H v) = None \<Longrightarrow>
   DownlinkView_strict (DownlinkView_set_strict H v b) v = b"
  by (simp add: DownlinkView_strict_def DownlinkView_set_strict_def upd_view_def)

lemma strict_set_attached:
  "view_downlink_manager (views H v) = Some mg \<Longrightarrow>
   DownlinkView_strict (DownlinkView_set_strict H v b) v = private_strict (views H v)"
  by (simp add: DownlinkView_strict_def DownlinkView_set_strict_def upd_manager_def)

text \<open>
  C4. The claim: reading \<open>strict\<close> gives the manager's value for an attached view and the
  private value otherwise, and after \<open>strict = b\<close> a read gives \<open>b\<close>, attached or not. What
  the code does: for the attached view 0 of the example, whose private flag is \<open>False\<close>,
  a read after \<open>strict = True\<close> gives \<open>False\<close>, because the setter stores the private flag
  in the manager, not its argument. For the unattached view 1 the read gives \<open>True\<close>.
\<close>

theorem strict_setter_ignores_argument_when_attached:
  "DownlinkView_strict (DownlinkView_set_strict (example_heap ValueKind) 0 True) 0 = False \<and>
   DownlinkView_strict (DownlinkView_set_strict (example_heap ValueKind) 1 True) 1 = True"
  by (simp add: example_defs DownlinkView_strict_def DownlinkView_set_strict_def heap_defs)

subsection \<open>Calls on a view that is not open\<close>

lemma fresh_view_not_open: "\<not> is_open (DownlinkView_init k)"
  by (simp add: DownlinkView_init_def)

lemma opened_view_is_open: "is_open (views (DownlinkView_open H v) v)"
  by (simp add: DownlinkView_open_def schedule_task_def upd_view_def)

lemma map_lookup_not_not_open: "outcome_of (MapDownlinkView_map H v key) \<noteq> Raised not_open"
  by (auto simp: MapDownlinkView_map_def outcome_of_def not_open_def
      split: option.splits pyobj.splits)

text \<open>
  What \<open>send_message\<close> of a model can raise is the \<open>AttributeError\<close> of a missing method or
  connection; so none of the coroutines behind a blocking call raises the not-open error.
\<close>

lemma send_message_raises:
  "send_message S L r env = Inl e \<Longrightarrow> e = AttributeError ''send_message''"
  by (auto simp: send_message_def ValueDownlinkModel_send_message_def
      MapDownlinkModel_send_message_def send_now_def
      split: kind.splits if_splits option.splits)

lemma send_outcome_not_not_open: "send_outcome S L r env \<noteq> Raised not_open"
  by (auto simp: send_outcome_def not_open_def split: sum.splits dest: send_message_raises)

lemma returns_None_not_open: "returns_None out = Raised e \<longleftrightarrow> out = Raised e"
  by (simp add: returns_None_def split: outcome.split)

lemma other_errors_not_not_open:
  "AttributeError a \<noteq> not_open"
  "TypeError a \<noteq> not_open"
  by (simp_all add: not_open_def)

lemma coroutines_not_not_open:
  "ValueDownlinkView_get_value L v \<noteq> Raised not_open"
  "MapDownlinkView_get_value L v key \<noteq> Raised not_open"
  "ValueDownlinkView_send_message S L v x \<noteq> Raised not_open"
  "MapDownlinkView_put_message S L v key x \<noteq> Raised not_open"
  "MapDownlinkView_remove_message S L v key \<noteq> Raised not_open"
  by (auto simp: ValueDownlinkView_get_value_def ValueDownlinkModel_get_value_def
      MapDownlinkView_get_value_def MapDownlinkModel_get_value_def
      ValueDownlinkView_send_message_def MapDownlinkView_put_message_def
      MapDownlinkView_remove_message_def send_outcome_not_not_open other_errors_not_not_open
      Let_def split: option.splits)

text \<open>
  C8. A view is not open until \<open>open()\<close> is called on it: the constructor leaves \<open>is_open\<close>
  false and \<open>open\<close> sets it. On a view that is not open, \<open>get\<close>, \<open>set\<close>, \<open>put\<close> and \<open>remove\<close>
  raise the not-open error and leave the heap as it was: nothing is scheduled, so nothing
  is sent. On an open view none of these calls raises that error, blocking or not,
  whatever the heap in which the loop runs the scheduled coroutine; \<open>set\<close>, \<open>put\<close> and
  \<open>remove\<close> that do not block return \<open>None\<close>.
\<close>

theorem not_open_calls_raise:
  "\<not> is_open (DownlinkView_init k) \<and>
   is_open (views (DownlinkView_open H v) v) \<and>
   (\<not> is_open (views H v) \<longrightarrow>
      ValueDownlinkView_get L H v ws = (Raised not_open, H) \<and>
      ValueDownlinkView_set S L H v x bl = (Raised not_open, H) \<and>
      MapDownlinkView_get L H v key ws = (Raised not_open, H) \<and>
      MapDownlinkView_put S L H v key x bl = (Raised not_open, H) \<and>
      MapDownlinkView_remove S L H v key bl = (Raised not_open, H)) \<and>
   (is_open (views H v) \<longrightarrow>
      fst (ValueDownlinkView_get L H v ws) \<noteq> Raised not_open \<and>
      fst (ValueDownlinkView_set S L H v x bl) \<noteq> Raised not_open \<and>
      fst (MapDownlinkView_get L H v key ws) \<noteq> Raised not_open \<and>
      fst (MapDownlinkView_put S L H v key x bl) \<noteq> Raised not_open \<and>
      fst (MapDownlinkView_remove S L H v key bl) \<noteq> Raised not_open \<and>
      fst (ValueDownlinkView_set S L H v x False) = Returned PyNone \<and>
      fst (MapDownlinkView_put S L H v key x False) = Returned PyNone \<and>
      fst (MapDownlinkView_remove S L H v key False) = Returned PyNone)"
proof (intro conjI impI)
  show "\<not> is_open (DownlinkView_init k)"
    by (rule fresh_view_not_open)
  show "is_open (views (DownlinkView_open H v) v)"
    by (rule opened_view_is_open)
next
  assume closed: "\<not> is_open (views H v)"
  from closed show "ValueDownlinkView_get L H v ws = (Raised not_open, H)"
    by (simp add: ValueDownlinkView_get_def)
  from closed show "ValueDownlinkView_set S L H v x bl = (Raised not_open, H)"
    by (simp add: ValueDownlinkView_set_def)
  from closed show "MapDownlinkView_get L H v key ws = (Raised not_open, H)"
    by (simp add: MapDownlinkView_get_def)
  from closed show "MapDownlinkView_put S L H v key x bl = (Raised not_open, H)"
    by (simp add: MapDownlinkView_put_def)
  from closed show "MapDownlinkView_remove S L H v key bl = (Raised not_open, H)"
    by (simp add: MapDownlinkView_remove_def)
next
  assume opened: "is_open (views H v)"
  from opened show "fst (ValueDownlinkView_get L H v ws) \<noteq> Raised not_open"
    by (simp add: ValueDownlinkView_get_def coroutines_not_not_open)
  from opened show "fst (ValueDownlinkView_set S L H v x bl) \<noteq> Raised not_open"
    by (simp add: ValueDownlinkView_set_def returns_None_not_open coroutines_not_not_open)
  from opened show "fst (MapDownlinkView_get L H v key ws) \<noteq> Raised not_open"
    by (simp add: MapDownlinkView_get_def coroutines_not_not_open map_lookup_not_not_open)
  from opened show "fst (MapDownlinkView_put S L H v key x bl) \<noteq> Raised not_open"
    by (simp add: MapDownlinkView_put_def returns_None_not_open coroutines_not_not_open)
  from opened show "fst (MapDownlinkView_remove S L H v key bl) \<noteq> Raised not_open"
    by (simp add: MapDownlinkView_remove_def returns_None_not_open coroutines_not_not_open)
  from opened show "fst (ValueDownlinkView_set S L H v x False) = Returned PyNone"
    by (simp add: ValueDownlinkView_set_def)
  from opened show "fst (MapDownlinkView_put S L H v key x False) = Returned PyNone"
    by (simp add: MapDownlinkView_put_def)
  from opened show "fst (MapDownlinkView_remove S L H v key False) = Returned PyNone"
    by (simp add: MapDownlinkView_remove_def)
qed

text \<open>
  The witness: on the view 2 of the example, which was never opened, a blocking \<open>set\<close> and
  a \<open>remove\<close> raise the error and leave the heap; on the open view 0 a blocking \<open>set\<close>
  and a blocking \<open>get\<close>, whose coroutines the loop runs in the heap of the call, do not.
\<close>

theorem not_open_calls_raise_witness:
  "ValueDownlinkView_set spec_structs (example_heap ValueKind) (example_heap ValueKind) 2
       (PyInt 7) True
     = (Raised not_open, example_heap ValueKind) \<and>
   MapDownlinkView_remove spec_structs (example_heap MapKind) (example_heap MapKind) 2
       (PyStr ''k'') False
     = (Raised not_open, example_heap MapKind) \<and>
   fst (ValueDownlinkView_set spec_structs (example_heap ValueKind) (example_heap ValueKind) 0
          (PyInt 7) True)
     \<noteq> Raised not_open \<and>
   fst (MapDownlinkView_get (example_heap MapKind) (example_heap MapKind) 0 (PyStr ''k'') True)
     \<noteq> Raised not_open"
proof -
  have closed: "\<not> is_open (views (example_heap k) 2)" for k
    by (simp add: example_defs)
  have opened: "is_open (views (example_heap k) 0)" for k
    by (simp add: example_defs)
  let ?V = "example_heap ValueKind" and ?M = "example_heap MapKind"
  from closed [of ValueKind]
    not_open_calls_raise [where H = ?V and v = 2 and L = ?V and S = spec_structs
        and x = "PyInt 7" and bl = True]
  have 1: "ValueDownlinkView_set spec_structs ?V ?V 2 (PyInt 7) True = (Raised not_open, ?V)"
    by blast
  from closed [of MapKind]
    not_open_calls_raise [where H = ?M and v = 2 and L = ?M and S = spec_structs
        and key = "PyStr ''k''" and bl = False]
  have 2: "MapDownlinkView_remove spec_structs ?M ?M 2 (PyStr ''k'') False = (Raised not_open, ?M)"
    by blast
  from opened [of ValueKind]
    not_open_calls_raise [where H = ?V and v = 0 and L = ?V and S = spec_structs
        and x = "PyInt 7" and bl = True]
  have 3: "fst (ValueDownlinkView_set spec_structs ?V ?V 0 (PyInt 7) True) \<noteq> Raised not_open"
    by blast
  from opened [of MapKind]
    not_open_calls_raise [where H = ?M and v = 0 and L = ?M and key = "PyStr ''k''"
        and ws = True]
  have 4: "fst (MapDownlinkView_get ?M ?M 0 (PyStr ''k'') True) \<noteq> Raised not_open"
    by blast
  from 1 2 3 4 show ?thesis by blast
qed

subsection \<open>Sending waits for \<open>linked\<close>\<close>

text \<open>The callbacks and the fan-out only schedule tasks.\<close>

lemma foldl_frame:
  assumes "\<And>H v. P (f H v) = P H"
  shows "P (foldl f H vs) = P H"
  using assms by (induction vs arbitrary: H) simp_all

lemma execute_frame:
  "models (execute_on_event H v e) = models H"
  "outbox (execute_on_event H v e) = outbox H"
  "models (execute_did_set H v a b) = models H"
  "outbox (execute_did_set H v a b) = outbox H"
  "models (execute_did_update H v k a b) = models H"
  "outbox (execute_did_update H v k a b) = outbox H"
  "models (execute_did_remove H v k b) = models H"
  "outbox (execute_did_remove H v k b) = outbox H"
  by (simp_all add: execute_on_event_def execute_did_set_def execute_did_update_def
      execute_did_remove_def schedule_task_def split: option.split)

lemma subscribers_frame:
  "models (subscribers_on_event H mg e) = models H"
  "outbox (subscribers_on_event H mg e) = outbox H"
  "models (subscribers_did_set H mg a b) = models H"
  "outbox (subscribers_did_set H mg a b) = outbox H"
  "models (subscribers_did_update H mg k a b) = models H"
  "outbox (subscribers_did_update H mg k a b) = outbox H"
  "models (subscribers_did_remove H mg k b) = models H"
  "outbox (subscribers_did_remove H mg k b) = outbox H"
  unfolding subscribers_on_event_def subscribers_did_set_def subscribers_did_update_def
    subscribers_did_remove_def
  by (rule foldl_frame, simp add: execute_frame)+

lemma upd_model_frame:
  "outbox (upd_model H r f) = outbox H"
  "models (upd_model H r f) r' = (if r' = r then f (models H r) else models H r')"
  by (simp_all add: upd_model_def)

text \<open>Receiving writes nothing to a connection and never clears \<open>linked\<close>.\<close>

lemma receive_event_frame:
  assumes "receive_event S H r msg = Inr H'"
  shows "outbox H' = outbox H \<and> linked (models H' r) = linked (models H r)"
  using assms
  by (auto simp: receive_event_def EventDownlinkModel_receive_event_def
      ValueDownlinkModel_receive_event_def ValueDownlinkModel_set_value_def
      MapDownlinkModel_receive_event_def MapDownlinkModel_receive_update_def
      MapDownlinkModel_receive_remove_def subscribers_frame upd_model_frame Let_def
      split: kind.splits option.splits sum.splits if_splits)

lemma receive_synced_frame:
  assumes "receive_synced H r = Inr H'"
  shows "outbox H' = outbox H \<and> linked (models H' r) = linked (models H r)"
  using assms
  by (auto simp: receive_synced_def EventDownlinkModel_receive_synced_def
      ValueDownlinkModel_receive_synced_def MapDownlinkModel_receive_synced_def upd_model_frame
      split: kind.splits)

lemma receive_message_frame:
  assumes "receive_message S H r msg = Inr H'"
  shows "outbox H' = outbox H \<and> (linked (models H r) \<longrightarrow> linked (models H' r))"
  using assms receive_event_frame [of S H r msg H'] receive_synced_frame [of H r H']
  by (auto simp: receive_message_def receive_linked_def receive_unlinked_def upd_model_frame
      split: if_splits sum.splits)

lemma send_now_linked:
  "send_now S H r env = Inr H' \<Longrightarrow> linked (models H' r) = linked (models H r)"
  by (auto simp: send_now_def connection_send_message_def split: option.splits)

lemma send_message_frame:
  assumes "send_message S H r env = Inr H'"
  shows "(\<not> linked (models H r) \<longrightarrow> outbox H' = outbox H) \<and>
         (linked (models H r) \<longrightarrow> linked (models H' r))"
  using assms
  by (auto simp: send_message_def ValueDownlinkModel_send_message_def
      MapDownlinkModel_send_message_def upd_model_frame dest: send_now_linked
      split: kind.splits if_splits)

lemma send_message_resume_frame:
  assumes "send_message_resume S H r = Some (Inr H')"
  shows "linked (models H r) \<and> linked (models H' r)"
  using assms
  by (auto simp: send_message_resume_def upd_model_frame dest!: send_now_linked
      split: list.splits if_splits)

lemma downlink_step_frame:
  assumes "downlink_step S r H H'"
  shows "(\<not> linked (models H r) \<longrightarrow> outbox H' = outbox H) \<and>
         (linked (models H r) \<longrightarrow> linked (models H' r))"
  using assms
proof cases
  case (step_recv msg)
  then show ?thesis using receive_message_frame by blast
next
  case (step_send env)
  then show ?thesis using send_message_frame by blast
next
  case step_resume
  then show ?thesis using send_message_resume_frame by blast
qed

text \<open>
  As long as the model at the end of a run is not linked, it was not linked at the start
  and no frame was written during the run.
\<close>

lemma downlink_run_frame:
  assumes "downlink_run S r H H'"
  shows "\<not> linked (models H' r) \<longrightarrow> outbox H' = outbox H \<and> \<not> linked (models H r)"
  using assms
proof (induction rule: downlink_run.induct)
  case (run_refl H)
  show ?case by simp
next
  case (run_step H H1 H2)
  from run_step.hyps(2) have
    st: "(\<not> linked (models H1 r) \<longrightarrow> outbox H2 = outbox H1) \<and>
         (linked (models H1 r) \<longrightarrow> linked (models H2 r))"
    by (rule downlink_step_frame)
  show ?case
  proof
    assume n2: "\<not> linked (models H2 r)"
    with st have n1: "\<not> linked (models H1 r)" by blast
    with run_step.IH have "outbox H1 = outbox H" and "\<not> linked (models H r)" by simp_all
    moreover from st n1 have "outbox H2 = outbox H1" by simp
    ultimately show "outbox H2 = outbox H \<and> \<not> linked (models H r)" by simp
  qed
qed

text \<open>
  C7. For a value or map downlink, an envelope passed to \<open>send_message\<close> is not written to
  the connection before \<open>linked\<close> has been set. Over every run of the model (envelopes
  received, \<open>send_message\<close> called, suspended calls resumed, in any order): while the model
  is not linked, the frames written to the connections are those of the start; and a step
  that writes a frame starts from a linked model. Called on a model that is not linked,
  \<open>send_message\<close> suspends at the wait with its envelope and cannot be resumed; on a linked
  model it encodes the envelope and hands the frame to the connection, at the call or when
  the suspended call is resumed.
\<close>

theorem send_waits_for_linked:
  "(downlink_run S r H H' \<longrightarrow> \<not> linked (models H' r) \<longrightarrow> outbox H' = outbox H) \<and>
   (downlink_step S r H H' \<longrightarrow> outbox H' \<noteq> outbox H \<longrightarrow> linked (models H r)) \<and>
   (\<not> linked (models H r) \<longrightarrow>
      ValueDownlinkModel_send_message S H r env
        = Inr (upd_model H r (\<lambda>m. m\<lparr>linked_waiters := linked_waiters m @ [env]\<rparr>)) \<and>
      MapDownlinkModel_send_message S H r env
        = Inr (upd_model H r (\<lambda>m. m\<lparr>linked_waiters := linked_waiters m @ [env]\<rparr>)) \<and>
      send_message_resume S H r = None) \<and>
   (linked (models H r) \<and> connection (models H r) = Some c \<longrightarrow>
      ValueDownlinkModel_send_message S H r env
        = Inr (connection_send_message H c (to_recon S env)) \<and>
      MapDownlinkModel_send_message S H r env
        = Inr (connection_send_message H c (to_recon S env)) \<and>
      (linked_waiters (models H r) = env # rest \<longrightarrow>
         send_message_resume S H r
           = Some (Inr (connection_send_message
                          (upd_model H r (\<lambda>m. m\<lparr>linked_waiters := rest\<rparr>)) c (to_recon S env)))))"
proof (intro conjI impI)
  assume "downlink_run S r H H'" and "\<not> linked (models H' r)"
  then show "outbox H' = outbox H" using downlink_run_frame by blast
next
  assume "downlink_step S r H H'" and "outbox H' \<noteq> outbox H"
  then show "linked (models H r)" using downlink_step_frame by blast
next
  assume "\<not> linked (models H r)"
  then show "ValueDownlinkModel_send_message S H r env
        = Inr (upd_model H r (\<lambda>m. m\<lparr>linked_waiters := linked_waiters m @ [env]\<rparr>))"
    by (simp add: ValueDownlinkModel_send_message_def)
next
  assume "\<not> linked (models H r)"
  then show "MapDownlinkModel_send_message S H r env
        = Inr (upd_model H r (\<lambda>m. m\<lparr>linked_waiters := linked_waiters m @ [env]\<rparr>))"
    by (simp add: MapDownlinkModel_send_message_def)
next
  assume "\<not> linked (models H r)"
  then show "send_message_resume S H r = None"
    by (simp add: send_message_resume_def split: list.split)
next
  assume "linked (models H r) \<and> connection (models H r) = Some c"
  then show "ValueDownlinkModel_send_message S H r env
        = Inr (connection_send_message H c (to_recon S env))"
    by (simp add: ValueDownlinkModel_send_message_def send_now_def)
next
  assume "linked (models H r) \<and> connection (models H r) = Some c"
  then show "MapDownlinkModel_send_message S H r env
        = Inr (connection_send_message H c (to_recon S env))"
    by (simp add: MapDownlinkModel_send_message_def send_now_def)
next
  assume "linked (models H r) \<and> connection (models H r) = Some c"
    and "linked_waiters (models H r) = env # rest"
  then show "send_message_resume S H r
           = Some (Inr (connection_send_message
                          (upd_model H r (\<lambda>m. m\<lparr>linked_waiters := rest\<rparr>)) c (to_recon S env)))"
    by (simp add: send_message_resume_def send_now_def upd_model_def)
qed

text \<open>
  The witness: \<open>send_message\<close> called on the value model before \<open>linked\<close> is a run that
  ends in a model that is not linked, and the outbox is unchanged; called on the linked
  model it writes the frame.
\<close>

theorem send_waits_for_linked_witness:
  "downlink_run spec_structs 0 (unlinked_heap ValueKind)
     (upd_model (unlinked_heap ValueKind) 0
        (\<lambda>m. m\<lparr>linked_waiters := linked_waiters m @ [envelope ''command'' (Text ''hi'')]\<rparr>)) \<and>
   outbox (upd_model (unlinked_heap ValueKind) 0
        (\<lambda>m. m\<lparr>linked_waiters := linked_waiters m @ [envelope ''command'' (Text ''hi'')]\<rparr>))
     = outbox (unlinked_heap ValueKind) \<and>
   ValueDownlinkModel_send_message spec_structs (example_heap ValueKind) 0
       (envelope ''command'' (Text ''hi''))
     = Inr (connection_send_message (example_heap ValueKind) 0 ''@command(node:a,lane:b)hi'') \<and>
   downlink_step spec_structs 0 (example_heap ValueKind)
     (connection_send_message (example_heap ValueKind) 0 ''@command(node:a,lane:b)hi'') \<and>
   outbox (connection_send_message (example_heap ValueKind) 0 ''@command(node:a,lane:b)hi'')
     \<noteq> outbox (example_heap ValueKind) \<and>
   linked (models (example_heap ValueKind) 0)"
proof -
  let ?env = "envelope ''command'' (Text ''hi'')"
  let ?H0 = "unlinked_heap ValueKind"
  let ?H1 = "upd_model ?H0 0 (\<lambda>m. m\<lparr>linked_waiters := linked_waiters m @ [?env]\<rparr>)"
  have unl: "\<not> linked (models ?H0 0)" and knd: "kind (models ?H0 0) = ValueKind"
    by (simp_all add: example_defs upd_model_def)
  from unl send_waits_for_linked [of spec_structs 0 ?H0 _ ?env]
  have "ValueDownlinkModel_send_message spec_structs ?H0 0 ?env = Inr ?H1"
    by blast
  with knd have "send_message spec_structs ?H0 0 ?env = Inr ?H1"
    by (simp add: send_message_def)
  then have "downlink_step spec_structs 0 ?H0 ?H1"
    by (rule downlink_step.step_send)
  with downlink_run.run_refl have run: "downlink_run spec_structs 0 ?H0 ?H1"
    by (rule downlink_run.run_step)
  have unl1: "\<not> linked (models ?H1 0)"
    using unl by (simp add: upd_model_def)
  from run unl1 send_waits_for_linked [of spec_structs 0 ?H0 ?H1]
  have same: "outbox ?H1 = outbox ?H0" by blast
  have lnk: "linked (models (example_heap ValueKind) 0) \<and>
             connection (models (example_heap ValueKind) 0) = Some 0"
    by (simp add: example_defs)
  with send_waits_for_linked [of spec_structs 0 "example_heap ValueKind" _ ?env 0]
  have "ValueDownlinkModel_send_message spec_structs (example_heap ValueKind) 0 ?env
          = Inr (connection_send_message (example_heap ValueKind) 0 (to_recon spec_structs ?env))"
    by blast
  moreover have "to_recon spec_structs ?env = ''@command(node:a,lane:b)hi''"
    by (simp add: spec_structs_def spec_to_recon_def envelope_def string_defs)
  ultimately have sent:
    "ValueDownlinkModel_send_message spec_structs (example_heap ValueKind) 0 ?env
       = Inr (connection_send_message (example_heap ValueKind) 0 ''@command(node:a,lane:b)hi'')"
    by simp
  let ?G = "example_heap ValueKind"
  let ?G' = "connection_send_message ?G 0 ''@command(node:a,lane:b)hi''"
  have "kind (models ?G 0) = ValueKind"
    by (simp add: example_defs)
  with sent have "send_message spec_structs ?G 0 ?env = Inr ?G'"
    by (simp add: send_message_def)
  then have wstep: "downlink_step spec_structs 0 ?G ?G'"
    by (rule downlink_step.step_send)
  have "outbox ?G' 0 \<noteq> outbox ?G 0"
    by (simp add: connection_send_message_def example_defs)
  then have differ: "outbox ?G' \<noteq> outbox ?G"
    by auto
  from wstep differ send_waits_for_linked [of spec_structs 0 ?G ?G']
  have "linked (models ?G 0)" by blast
  with run same sent wstep differ show ?thesis by simp
qed

end
